theory Spec2Isabelle
  imports Complex_Main
begin

section \<open>Values of the three.js objects the configurator reads and writes\<close>

text \<open>
  JavaScript numbers are modelled as real numbers. Every constant of the source
  (\<open>0.55\<close>, \<open>0.4\<close>, \<open>0.9\<close>, ...) is the real number it denotes; rounding of the
  IEEE doubles behind them is outside the model.
\<close>

datatype vec3 = Vector3 (vec_x: real) (vec_y: real) (vec_z: real)

text \<open>\<open>THREE.Color\<close>: three channels. \<open>setHex(0xffffff)\<close> is \<open>white\<close>.\<close>

datatype color = Color (col_r: real) (col_g: real) (col_b: real)

definition white :: color where
  "white = Color 1 1 1"

text \<open>\<open>Color.multiplyScalar(s)\<close>: every channel times \<open>s\<close>.\<close>

definition multiplyScalar :: "color \<Rightarrow> real \<Rightarrow> color" where
  "multiplyScalar c s = Color (col_r c * s) (col_g c * s) (col_b c * s)"

text \<open>Vector3 arithmetic of three.js, as far as \<open>updateTexture\<close> uses it.\<close>

definition add_v :: "vec3 \<Rightarrow> vec3 \<Rightarrow> vec3" where
  "add_v a b = Vector3 (vec_x a + vec_x b) (vec_y a + vec_y b) (vec_z a + vec_z b)"

definition sub_v :: "vec3 \<Rightarrow> vec3 \<Rightarrow> vec3" where
  "sub_v a b = Vector3 (vec_x a - vec_x b) (vec_y a - vec_y b) (vec_z a - vec_z b)"

definition multiplyScalar_v :: "vec3 \<Rightarrow> real \<Rightarrow> vec3" where
  "multiplyScalar_v a s = Vector3 (vec_x a * s) (vec_y a * s) (vec_z a * s)"

definition length_v :: "vec3 \<Rightarrow> real" where
  "length_v a = sqrt (vec_x a * vec_x a + vec_y a * vec_y a + vec_z a * vec_z a)"

text \<open>\<open>normalize()\<close> is \<open>divideScalar(this.length() || 1)\<close>: the zero vector stays zero.\<close>

definition normalize_v :: "vec3 \<Rightarrow> vec3" where
  "normalize_v a =
     (let l = (if length_v a = 0 then 1 else length_v a)
      in Vector3 (vec_x a / l) (vec_y a / l) (vec_z a / l))"

text \<open>
  \<open>Matrix4\<close>, reduced to the nine elements \<open>transformDirection\<close> reads (the upper left
  3x3 block of the column-major \<open>elements\<close> array).
\<close>

record matrix4 =
  e0 :: real
  e1 :: real
  e2 :: real
  e4 :: real
  e5 :: real
  e6 :: real
  e8 :: real
  e9 :: real
  e10 :: real

text \<open>\<open>Vector3.transformDirection(m)\<close>: multiply by the 3x3 block, then normalize.\<close>

definition transformDirection :: "vec3 \<Rightarrow> matrix4 \<Rightarrow> vec3" where
  "transformDirection v m =
     normalize_v (Vector3
       (e0 m * vec_x v + e4 m * vec_y v + e8 m * vec_z v)
       (e1 m * vec_x v + e5 m * vec_y v + e9 m * vec_z v)
       (e2 m * vec_x v + e6 m * vec_y v + e10 m * vec_z v))"

text \<open>\<open>Box3\<close> with \<open>getCenter\<close> and \<open>getSize\<close>; an empty box gives the zero vector.\<close>

record box3 =
  box_min :: vec3
  box_max :: vec3

definition isEmpty :: "box3 \<Rightarrow> bool" where
  "isEmpty b =
     (vec_x (box_max b) < vec_x (box_min b) \<or> vec_y (box_max b) < vec_y (box_min b)
      \<or> vec_z (box_max b) < vec_z (box_min b))"

definition getCenter :: "box3 \<Rightarrow> vec3" where
  "getCenter b =
     (if isEmpty b then Vector3 0 0 0
      else multiplyScalar_v (add_v (box_min b) (box_max b)) 0.5)"

definition getSize :: "box3 \<Rightarrow> vec3" where
  "getSize b = (if isEmpty b then Vector3 0 0 0 else sub_v (box_max b) (box_min b))"

section \<open>The finish preset table\<close>

text \<open>
  One block of physical parameters of a preset. The fields carry the prefix \<open>p_\<close>
  because the materials below have fields of the same names. The \<open>base\<close> block of the
  source has no \<open>colorMult\<close>; the code reads \<open>colorMult\<close> from the \<open>engraved\<close> block only.
\<close>

record base_params =
  p_roughness :: real
  p_metalness :: real
  p_normalScale :: real

record engraved_params = base_params +
  colorMult :: real

record preset =
  name :: string
  base :: base_params
  engraved :: engraved_params

definition powder :: preset where
  "powder = \<lparr> name = ''Powder-Coated Steel'',
     base = \<lparr> p_roughness = 0.55, p_metalness = 0.85, p_normalScale = 1.0 \<rparr>,
     engraved = \<lparr> p_roughness = 0.68, p_metalness = 0.78, p_normalScale = 1.12,
                  colorMult = 1.0 \<rparr> \<rparr>"

definition raw :: preset where
  "raw = \<lparr> name = ''Raw / Weathered Steel'',
     base = \<lparr> p_roughness = 0.65, p_metalness = 0.80, p_normalScale = 1.0 \<rparr>,
     engraved = \<lparr> p_roughness = 0.78, p_metalness = 0.70, p_normalScale = 1.15,
                  colorMult = 0.9 \<rparr> \<rparr>"

definition corten :: preset where
  "corten = \<lparr> name = ''Corten / Rusted Steel'',
     base = \<lparr> p_roughness = 0.75, p_metalness = 0.65, p_normalScale = 1.0 \<rparr>,
     engraved = \<lparr> p_roughness = 0.88, p_metalness = 0.55, p_normalScale = 1.18,
                  colorMult = 1.0 \<rparr> \<rparr>"

definition brushed :: preset where
  "brushed = \<lparr> name = ''Brushed Stainless Steel'',
     base = \<lparr> p_roughness = 0.35, p_metalness = 0.95, p_normalScale = 1.0 \<rparr>,
     engraved = \<lparr> p_roughness = 0.48, p_metalness = 0.88, p_normalScale = 1.10,
                  colorMult = 1.0 \<rparr> \<rparr>"

definition painted :: preset where
  "painted = \<lparr> name = ''Painted / Matte Metal'',
     base = \<lparr> p_roughness = 0.70, p_metalness = 0.60, p_normalScale = 1.0 \<rparr>,
     engraved = \<lparr> p_roughness = 0.82, p_metalness = 0.52, p_normalScale = 1.10,
                  colorMult = 1.0 \<rparr> \<rparr>"

text \<open>The own properties of the object literal \<open>FINISH_PRESETS\<close>, in source order.\<close>

definition preset_entries :: "(string \<times> preset) list" where
  "preset_entries =
     [(''powder'', powder), (''raw'', raw), (''corten'', corten),
      (''brushed'', brushed), (''painted'', painted)]"

text \<open>
  \<open>FINISH_PRESETS\<close> is a plain object literal, so \<open>FINISH_PRESETS[key]\<close> is a property
  read that walks the prototype chain: a key that is no own property but names a
  property of \<open>Object.prototype\<close> yields that inherited member (a function, or the
  prototype object itself for \<open>__proto__\<close>), which is truthy and has neither a \<open>base\<close>
  nor an \<open>engraved\<close> property. Every other key yields \<open>undefined\<close>.
\<close>

definition object_prototype_keys :: "string list" where
  "object_prototype_keys =
     [''constructor'', ''toString'', ''toLocaleString'', ''valueOf'', ''hasOwnProperty'',
      ''isPrototypeOf'', ''propertyIsEnumerable'', ''__proto__'', ''__defineGetter__'',
      ''__defineSetter__'', ''__lookupGetter__'', ''__lookupSetter__'']"

datatype property = Undefined | Own preset | Inherited

definition FINISH_PRESETS :: "string \<Rightarrow> property" where
  "FINISH_PRESETS key =
     (case map_of preset_entries key of
        Some p \<Rightarrow> Own p
      | None \<Rightarrow> if key \<in> set object_prototype_keys then Inherited else Undefined)"

text \<open>JavaScript truthiness of such a property value.\<close>

fun truthy :: "property \<Rightarrow> bool" where
  "truthy Undefined = False"
| "truthy (Own p) = True"
| "truthy Inherited = True"

section \<open>Textures, materials, meshes and decals\<close>

text \<open>
  A source surface is the DOM canvas handed to \<open>updateTexture\<close>; the caller may pass
  \<open>null\<close>, hence \<open>canvas option\<close>. Objects created with \<open>new\<close> carry an identifier
  taken from the counter \<open>next_id\<close> of the state, which stands for object identity.
\<close>

type_synonym canvas = nat

record texture =
  tex_id :: nat
  tex_image :: "canvas option"
  colorSpace :: string
  flipY :: bool

text \<open>
  \<open>MeshStandardMaterial\<close>, with the properties the configurator touches. Both the shared
  decal material and the material of the front panel are of this shape; \<open>normalScale\<close> is
  absent on materials without one (the source tests for it). The write-only property
  \<open>needsUpdate\<close> is kept as a flag.
\<close>

record material =
  color :: color
  roughness :: real
  metalness :: real
  normalScale :: "(real \<times> real) option"
  map' :: "texture option"
  alphaMap :: "texture option"
  needsUpdate :: bool

text \<open>One entry of the array returned by \<open>Raycaster.intersectObject\<close>.\<close>

record intersection =
  point :: vec3
  face_normal :: vec3

text \<open>
  The target mesh. Its geometry is not modelled: what three.js computes from it is part
  of the record, namely the world-space box of \<open>new THREE.Box3().setFromObject(mesh)\<close> and
  the hits of \<open>raycaster.set(origin, direction); raycaster.intersectObject(mesh, false)\<close>,
  nearest first. Meshes come from \<open>GLTFLoader\<close>, which gives each mesh a single material.
\<close>

record mesh =
  material :: "material option"
  matrixWorld :: matrix4
  setFromObject :: box3
  intersectObject :: "vec3 \<Rightarrow> vec3 \<Rightarrow> intersection list"

text \<open>
  The rotation handed to \<open>DecalGeometry\<close>: either the \<open>Euler\<close> angles given literally
  (\<open>new THREE.Euler()\<close> is \<open>Euler 0 0 0\<close>), or the rotation of a helper object placed at
  the first vector after \<open>lookAt\<close> of the second. The angles three.js derives for the
  latter are not computed.
\<close>

datatype rotation = Euler real real real | LookAt vec3 vec3

text \<open>\<open>new DecalGeometry(mesh, position, orientation, size)\<close>: its arguments and identity.\<close>

record decal_geometry =
  geom_id :: nat
  geom_position :: vec3
  geom_orientation :: rotation
  geom_size :: vec3

text \<open>\<open>new THREE.Mesh(geometry, decalMaterial)\<close>; the material is always the shared one.\<close>

record decal =
  mesh_id :: nat
  geometry :: decal_geometry

text \<open>
  A loaded model (\<open>gltf.scene\<close>), reduced to its meshes with their names in the order
  \<open>traverse\<close> visits them.
\<close>

type_synonym gltf = "(string \<times> mesh) list"

section \<open>Module state\<close>

text \<open>
  The module-level variables of \<open>configurator.js\<close>. \<open>scene\<close> holds the decal meshes among
  the children of the three.js scene (the lights and the loaded model are not touched by
  the operations below). \<open>geometries\<close> lists every decal geometry constructed so far,
  \<open>textures\<close> every \<open>CanvasTexture\<close> constructed so far, and \<open>disposed\<close> the objects of
  either kind on which \<open>dispose()\<close> was called; \<open>console\<close> collects the warnings.
\<close>

record state =
  scene :: "decal list"
  currentModel :: "gltf option"
  frontPanelMesh :: "mesh option"
  decalMesh :: "decal option"
  currentMode :: string
  currentFinish :: string
  decalMaterial :: material
  activeTexture :: "texture option"
  next_id :: nat
  geometries :: "nat list"
  textures :: "nat list"
  disposed :: "nat list"
  console :: "string list"

text \<open>
  The state after the module is loaded: \<open>decalMaterial\<close> is created with color
  \<open>0xffffff\<close> and the defaults of \<open>MeshStandardMaterial\<close>.
\<close>

definition initial_state :: state where
  "initial_state =
     \<lparr> scene = [], currentModel = None, frontPanelMesh = None, decalMesh = None,
       currentMode = ''printed'', currentFinish = ''powder'',
       decalMaterial = \<lparr> color = white, roughness = 1, metalness = 0,
         normalScale = Some (1, 1), map' = None, alphaMap = None, needsUpdate = False \<rparr>,
       activeTexture = None, next_id = 0, geometries = [], textures = [], disposed = [],
       console = [] \<rparr>"

text \<open>
  An operation either returns or throws; a throw keeps the mutations made before it, so
  both outcomes carry the state.
\<close>

datatype error = TypeError

datatype outcome = Returned state | Raised error state

fun state_of :: "outcome \<Rightarrow> state" where
  "state_of (Returned s) = s"
| "state_of (Raised e s) = s"

fun raised :: "outcome \<Rightarrow> bool" where
  "raised (Returned s) = False"
| "raised (Raised e s) = True"

section \<open>The material mode controller\<close>

text \<open>
  \<open>baseMat ? baseMat.color.clone() : new THREE.Color(0xffffff)\<close>, where \<open>baseMat\<close> is
  the material of the front panel if there is a front panel.
\<close>

definition baseColor :: "state \<Rightarrow> color" where
  "baseColor s =
     (case frontPanelMesh s of
        None \<Rightarrow> white
      | Some m \<Rightarrow> (case material m of None \<Rightarrow> white | Some baseMat \<Rightarrow> color baseMat))"

text \<open>\<open>FINISH_PRESETS[currentFinish] || FINISH_PRESETS['powder']\<close>.\<close>

definition finishPreset :: "state \<Rightarrow> property" where
  "finishPreset s =
     (if truthy (FINISH_PRESETS (currentFinish s)) then FINISH_PRESETS (currentFinish s)
      else FINISH_PRESETS ''powder'')"

text \<open>
  \<open>applyMaterialMode(texture)\<close>. In the engraved branch \<open>p = finishPreset.engraved\<close> is
  \<open>undefined\<close> when the preset is an inherited member; the channels and the color are
  assigned before \<open>p.colorMult\<close> is read, which then throws. The guard
  \<open>p.colorMult && p.colorMult !== 1.0\<close> skips the multiplication for 0 and for 1.
\<close>

definition applyMaterialMode :: "texture \<Rightarrow> state \<Rightarrow> outcome" where
  "applyMaterialMode texture s =
     (let dm = (decalMaterial s)\<lparr>needsUpdate := True\<rparr> in
      if currentMode s = ''engraved'' then
        (case finishPreset s of
           Undefined \<Rightarrow> Raised TypeError (s\<lparr>decalMaterial := dm\<rparr>)
         | Inherited \<Rightarrow>
             Raised TypeError
               (s\<lparr>decalMaterial := dm\<lparr>map' := None, alphaMap := Some texture,
                                       color := baseColor s\<rparr>\<rparr>)
         | Own fp \<Rightarrow>
             (let p = engraved fp;
                  c = (if colorMult p \<noteq> 0 \<and> colorMult p \<noteq> 1
                       then multiplyScalar (baseColor s) (colorMult p) else baseColor s)
              in Returned
                   (s\<lparr>decalMaterial := dm\<lparr>map' := None, alphaMap := Some texture,
                        color := c, roughness := p_roughness p,
                        metalness := p_metalness p\<rparr>\<rparr>)))
      else
        Returned
          (s\<lparr>decalMaterial := dm\<lparr>map' := Some texture, alphaMap := None, color := white,
               roughness := 0.4, metalness := 0.0\<rparr>\<rparr>))"

section \<open>Base panel and finish\<close>

text \<open>
  The block of \<open>setFinish\<close> that updates the base panel material. With an inherited
  member as the looked-up value, \<open>FINISH_PRESETS[currentFinish].base\<close> is \<open>undefined\<close>
  and reading \<open>preset.roughness\<close> throws before anything is written.
\<close>

definition updateBasePanel :: "state \<Rightarrow> outcome" where
  "updateBasePanel s =
     (case frontPanelMesh s of
        None \<Rightarrow> Returned s
      | Some m \<Rightarrow>
          (case material m of
             None \<Rightarrow> Returned s
           | Some mat \<Rightarrow>
               (case FINISH_PRESETS (currentFinish s) of
                  Own fp \<Rightarrow>
                    (let preset = base fp;
                         mat1 = mat\<lparr>roughness := p_roughness preset,
                                    metalness := p_metalness preset\<rparr>;
                         mat2 = (case normalScale mat1 of
                                   None \<Rightarrow> mat1
                                 | Some v \<Rightarrow>
                                     mat1\<lparr>normalScale :=
                                       Some (p_normalScale preset, p_normalScale preset)\<rparr>)
                     in Returned (s\<lparr>frontPanelMesh := Some (m\<lparr>material := Some mat2\<rparr>)\<rparr>))
                | Inherited \<Rightarrow> Raised TypeError s
                | Undefined \<Rightarrow> Raised TypeError s)))"

text \<open>\<open>if (decalMesh && activeTexture) applyMaterialMode(activeTexture)\<close>.\<close>

definition reapply :: "state \<Rightarrow> outcome" where
  "reapply s =
     (case decalMesh s of
        None \<Rightarrow> Returned s
      | Some d \<Rightarrow>
          (case activeTexture s of
             None \<Rightarrow> Returned s
           | Some t \<Rightarrow> applyMaterialMode t s))"

definition setFinish :: "string \<Rightarrow> state \<Rightarrow> outcome" where
  "setFinish finishId s =
     (if \<not> truthy (FINISH_PRESETS finishId) then Returned s
      else
        (case updateBasePanel (s\<lparr>currentFinish := finishId\<rparr>) of
           Raised e s1 \<Rightarrow> Raised e s1
         | Returned s1 \<Rightarrow> reapply s1))"

definition setMode :: "string \<Rightarrow> state \<Rightarrow> outcome" where
  "setMode mode s = reapply (s\<lparr>currentMode := mode\<rparr>)"

section \<open>Decal lifecycle and placement\<close>

definition removeDecals :: "state \<Rightarrow> state" where
  "removeDecals s =
     (case decalMesh s of
        None \<Rightarrow> s
      | Some d \<Rightarrow>
          s\<lparr>scene := remove1 d (scene s),
            disposed := disposed s @ [geom_id (geometry d)],
            decalMesh := None\<rparr>)"

text \<open>
  The placement part of \<open>updateTexture\<close> (from the bounding box to the end of the
  \<open>if (intersects.length > 0) ... else ...\<close>): the position and orientation handed to
  \<open>DecalGeometry\<close>, the decal size, and what is written to \<open>console.warn\<close>.
\<close>

record placement =
  position :: vec3
  orientation :: rotation
  decalSize :: vec3
  warnings :: "string list"

text \<open>The ray of the source, named after its local variables.\<close>

definition offsetRel :: "vec3 \<Rightarrow> vec3" where
  "offsetRel sz = Vector3 (vec_x sz * 0.50) (vec_y sz * 0.25) 0"

definition rayOrigin :: "box3 \<Rightarrow> vec3" where
  "rayOrigin box =
     add_v (add_v (getCenter box) (offsetRel (getSize box)))
       (Vector3 0 0 (vec_z (getSize box)))"

definition direction :: "box3 \<Rightarrow> vec3" where
  "direction box = normalize_v (sub_v (getCenter box) (rayOrigin box))"

definition intersects :: "mesh \<Rightarrow> intersection list" where
  "intersects m =
     intersectObject m (rayOrigin (setFromObject m)) (direction (setFromObject m))"

definition decalPlacement :: "mesh \<Rightarrow> placement" where
  "decalPlacement m =
     (let box = setFromObject m;
          center = getCenter box;
          size = getSize box;
          pos = add_v center (offsetRel size);
          dsize = Vector3 (vec_x size * 0.5915) (vec_y size * 0.845) 0.2
      in case intersects m of
           hit # rest \<Rightarrow>
             (let n = normalize_v (transformDirection (face_normal hit) (matrixWorld m))
              in \<lparr> position = point hit,
                   orientation = LookAt (point hit) (add_v (point hit) n),
                   decalSize = dsize, warnings = [] \<rparr>)
         | [] \<Rightarrow>
             \<lparr> position = Vector3 (vec_x pos) (vec_y pos) (vec_z pos + vec_z size / 2),
               orientation = Euler 0 0 0,
               decalSize = dsize,
               warnings = [''Decal raycast failed, falling back to offset placement''] \<rparr>)"

text \<open>
  \<open>updateTexture(sourceCanvas)\<close>. The texture is created around whatever the caller
  passed. A throw inside \<open>applyMaterialMode\<close> leaves the function before the decal is
  built.
\<close>

definition updateTexture :: "canvas option \<Rightarrow> state \<Rightarrow> outcome" where
  "updateTexture sourceCanvas s =
     (case frontPanelMesh s of
        None \<Rightarrow> Returned s
      | Some m \<Rightarrow>
          (let s1 = removeDecals s;
               texture = \<lparr> tex_id = next_id s1, tex_image = sourceCanvas,
                           colorSpace = ''srgb'', flipY = True \<rparr>;
               s2 = s1\<lparr>activeTexture := Some texture,
                      textures := textures s1 @ [tex_id texture],
                      next_id := next_id s1 + 1\<rparr>;
               pl = decalPlacement m;
               s3 = s2\<lparr>console := console s2 @ warnings pl\<rparr>
           in case applyMaterialMode texture s3 of
                Raised e s4 \<Rightarrow> Raised e s4
              | Returned s4 \<Rightarrow>
                  (let geom = \<lparr> geom_id = next_id s4, geom_position = position pl,
                                geom_orientation = orientation pl, geom_size = decalSize pl \<rparr>;
                       d = \<lparr> mesh_id = next_id s4 + 1, geometry = geom \<rparr>
                   in Returned
                        (s4\<lparr>decalMesh := Some d, scene := scene s4 @ [d],
                            geometries := geometries s4 @ [geom_id geom],
                            next_id := next_id s4 + 2\<rparr>))))"

section \<open>Model loading\<close>

text \<open>\<open>String.prototype.includes\<close>.\<close>

fun includes_str :: "string \<Rightarrow> string \<Rightarrow> bool" where
  "includes_str [] sub = (sub = [])"
| "includes_str (c # cs) sub = (take (length sub) (c # cs) = sub \<or> includes_str cs sub)"

text \<open>
  The synchronous part of \<open>loadModel\<close>: a model that is loaded is torn down together
  with the target mesh and the decal. The load itself is asynchronous; its success
  callback is \<open>onLoad\<close> below (a failed load changes nothing that is modelled).
\<close>

definition loadModel :: "state \<Rightarrow> state" where
  "loadModel s =
     (case currentModel s of
        None \<Rightarrow> s
      | Some model \<Rightarrow> removeDecals (s\<lparr>currentModel := None, frontPanelMesh := None\<rparr>))"

text \<open>
  The success callback of the loader: the first mesh whose name contains \<open>Front\<close>,
  \<open>Panel\<close> or \<open>Body\<close> becomes the front panel, else the first mesh; a front panel that is
  already set is kept.
\<close>

definition onLoad :: "gltf \<Rightarrow> state \<Rightarrow> state" where
  "onLoad model s =
     (let s1 = s\<lparr>currentModel := Some model\<rparr> in
      case frontPanelMesh s1 of
        Some m \<Rightarrow> s1
      | None \<Rightarrow>
          (case find (\<lambda>(nm, child). includes_str nm ''Front'' \<or> includes_str nm ''Panel''
                                     \<or> includes_str nm ''Body'') model of
             Some (nm, child) \<Rightarrow> s1\<lparr>frontPanelMesh := Some child\<rparr>
           | None \<Rightarrow>
               (case model of
                  [] \<Rightarrow> s1
                | (nm, child) # rest \<Rightarrow> s1\<lparr>frontPanelMesh := Some child\<rparr>)))"

section \<open>Sequences of events\<close>

text \<open>
  The events the module reacts to. Each handler runs to its end before the next event;
  a handler that throws leaves the state as it was at the throw, and later events are
  handled on that state.
\<close>

datatype event =
    LoadModel
  | OnLoad gltf
  | UpdateTexture "canvas option"
  | SetFinish string
  | SetMode string

fun handle :: "event \<Rightarrow> state \<Rightarrow> outcome" where
  "handle LoadModel s = Returned (loadModel s)"
| "handle (OnLoad model) s = Returned (onLoad model s)"
| "handle (UpdateTexture sourceCanvas) s = updateTexture sourceCanvas s"
| "handle (SetFinish finishId) s = setFinish finishId s"
| "handle (SetMode mode) s = setMode mode s"

fun run :: "event list \<Rightarrow> state \<Rightarrow> state" where
  "run [] s = s"
| "run (ev # evs) s = run evs (state_of (handle ev s))"

section \<open>Resource bookkeeping\<close>

text \<open>
  The geometries and the textures constructed and not yet disposed, and the textures the
  module still holds: through \<open>activeTexture\<close> and through the two channels of the decal
  material.
\<close>

definition live_geometries :: "state \<Rightarrow> nat list" where
  "live_geometries s = filter (\<lambda>g. g \<notin> set (disposed s)) (geometries s)"


fun refs :: "texture option \<Rightarrow> texture list" where
  "refs None = []"
| "refs (Some t) = [t]"

definition referenced_textures :: "state \<Rightarrow> texture list" where
  "referenced_textures s =
     refs (activeTexture s) @ refs (map' (decalMaterial s)) @ refs (alphaMap (decalMaterial s))"

text \<open>
  The lifecycle invariant: the scene holds exactly the active decal, the only geometry
  not disposed is the one of the active decal, the material channels hold no texture
  other than the active one, and identifiers handed out are below the counter.
\<close>

definition lifecycle_ok :: "state \<Rightarrow> bool" where
  "lifecycle_ok s =
     (scene s = (case decalMesh s of None \<Rightarrow> [] | Some d \<Rightarrow> [d]) \<and>
      live_geometries s = (case decalMesh s of None \<Rightarrow> [] | Some d \<Rightarrow> [geom_id (geometry d)]) \<and>
      list_all (\<lambda>t. activeTexture s = Some t)
        (refs (map' (decalMaterial s)) @ refs (alphaMap (decalMaterial s))) \<and>
      list_all (\<lambda>t. tex_id t < next_id s) (refs (activeTexture s)) \<and>
      list_all (\<lambda>g. g < next_id s) (geometries s) \<and>
      list_all (\<lambda>g. g < next_id s) (disposed s) \<and>
      distinct (geometries s))"


text \<open>
  Two states give the material mode controller the same inputs, apart from mode and
  finish: the same base color, texture and decal, the same untouched \<open>normalScale\<close> of
  the decal material, and the same decal material if there is nothing to re-apply.
\<close>

definition same_inputs :: "state \<Rightarrow> state \<Rightarrow> bool" where
  "same_inputs x y =
     (baseColor x = baseColor y \<and> activeTexture x = activeTexture y \<and>
      decalMesh x = decalMesh y \<and>
      normalScale (decalMaterial x) = normalScale (decalMaterial y) \<and>
      (if decalMesh x = None \<or> activeTexture x = None
       then decalMaterial x = decalMaterial y else True))"

text \<open>A decal exists only while a target mesh is resolved.\<close>

definition decal_needs_mesh :: "state \<Rightarrow> bool" where
  "decal_needs_mesh s =
     (case frontPanelMesh s of None \<Rightarrow> decalMesh s = None | Some m \<Rightarrow> True)"

section \<open>Sample inputs\<close>

text \<open>
  A panel material, a world matrix that turns a quarter turn about the z axis, and two
  panels with the box from (0, 0, 0) to (2, 4, 2): one that the ray hits on a face whose
  local normal is the x axis, and one that the ray misses.
\<close>

definition panel_material :: material where
  "panel_material =
     \<lparr> color = Color 0.5 0.4 0, roughness = 1, metalness = 0, normalScale = Some (1, 1),
       map' = None, alphaMap = None, needsUpdate = False \<rparr>"

definition quarter_turn_z :: matrix4 where
  "quarter_turn_z =
     \<lparr> e0 = 0, e1 = 1, e2 = 0, e4 = - 1, e5 = 0, e6 = 0, e8 = 0, e9 = 0, e10 = 1 \<rparr>"

definition panel_box :: box3 where
  "panel_box = \<lparr> box_min = Vector3 0 0 0, box_max = Vector3 2 4 2 \<rparr>"

definition turned_panel :: mesh where
  "turned_panel =
     \<lparr> material = Some panel_material, matrixWorld = quarter_turn_z,
       setFromObject = panel_box,
       intersectObject = (\<lambda>origin dir.
         [\<lparr> point = Vector3 1 2 2, face_normal = Vector3 1 0 0 \<rparr>]) \<rparr>"

definition missed_panel :: mesh where
  "missed_panel =
     \<lparr> material = Some panel_material, matrixWorld = quarter_turn_z,
       setFromObject = panel_box, intersectObject = (\<lambda>origin dir. []) \<rparr>"

definition sample_model :: gltf where
  "sample_model = [(''Legs'', turned_panel), (''FrontPanel'', missed_panel)]"

text \<open>A model is loaded and a canvas is turned into a decal, in raw finish, engraved.\<close>

definition sample_events :: "event list" where
  "sample_events =
     [OnLoad sample_model, SetFinish ''raw'', SetMode ''engraved'', UpdateTexture (Some 7)]"

definition sample_state :: state where
  "sample_state = run sample_events initial_state"

definition sample_texture :: texture where
  "sample_texture = \<lparr> tex_id = 0, tex_image = Some 7, colorSpace = ''srgb'', flipY = True \<rparr>"

section \<open>Lookups in the preset table\<close>

lemma lookup_raw: "FINISH_PRESETS ''raw'' = Own raw"
  by (simp add: FINISH_PRESETS_def preset_entries_def)

lemma lookup_constructor: "FINISH_PRESETS ''constructor'' = Inherited"
  by (simp add: FINISH_PRESETS_def preset_entries_def object_prototype_keys_def)

lemma lookup_unknown: "FINISH_PRESETS ''gold'' = Undefined"
  by (simp add: FINISH_PRESETS_def preset_entries_def object_prototype_keys_def)

lemma lookup_powder: "FINISH_PRESETS ''powder'' = Own powder"
  by (simp add: FINISH_PRESETS_def preset_entries_def)





lemma finishPreset_defined: "finishPreset s \<noteq> Undefined"
  by (cases "FINISH_PRESETS (currentFinish s)") (simp_all add: finishPreset_def lookup_powder)

lemma finishPreset_not_inherited:
  "FINISH_PRESETS (currentFinish s) \<noteq> Inherited \<Longrightarrow> \<exists>f. finishPreset s = Own f"
  by (cases "FINISH_PRESETS (currentFinish s)") (simp_all add: finishPreset_def lookup_powder)

section \<open>What each operation changes\<close>

lemma applyMaterialMode_frame:
  "state_of (applyMaterialMode t s) = s\<lparr>decalMaterial := decalMaterial (state_of (applyMaterialMode t s))\<rparr>"
  by (cases "finishPreset s") (simp_all add: applyMaterialMode_def Let_def)

lemma applyMaterialMode_channels:
  "set (refs (map' (decalMaterial (state_of (applyMaterialMode t s)))) @
        refs (alphaMap (decalMaterial (state_of (applyMaterialMode t s))))) = {t}"
  using finishPreset_defined [of s]
  by (cases "finishPreset s") (auto simp: applyMaterialMode_def Let_def)

lemma applyMaterialMode_returns:
  "FINISH_PRESETS (currentFinish s) \<noteq> Inherited \<Longrightarrow> \<not> raised (applyMaterialMode t s)"
  using finishPreset_not_inherited [of s]
  by (auto simp: applyMaterialMode_def Let_def)

lemma lifecycle_ok_decalMaterial:
  assumes "lifecycle_ok s"
    and "set (refs (map' dm) @ refs (alphaMap dm)) \<subseteq> {t. activeTexture s = Some t}"
  shows "lifecycle_ok (s\<lparr>decalMaterial := dm\<rparr>)"
  using assms by (auto simp: lifecycle_ok_def live_geometries_def list_all_iff)

lemma applyMaterialMode_ok:
  assumes "lifecycle_ok s" and "activeTexture s = Some t"
  shows "lifecycle_ok (state_of (applyMaterialMode t s))"
proof -
  have "lifecycle_ok (s\<lparr>decalMaterial := decalMaterial (state_of (applyMaterialMode t s))\<rparr>)"
    using assms(1)
  proof (rule lifecycle_ok_decalMaterial)
    show "set (refs (map' (decalMaterial (state_of (applyMaterialMode t s)))) @
               refs (alphaMap (decalMaterial (state_of (applyMaterialMode t s)))))
          \<subseteq> {t. activeTexture s = Some t}"
      using assms(2) by (simp only: applyMaterialMode_channels) simp
  qed
  then show ?thesis using applyMaterialMode_frame [of t s] by simp
qed

lemma reapply_ok: "lifecycle_ok s \<Longrightarrow> lifecycle_ok (state_of (reapply s))"
  by (auto simp: reapply_def applyMaterialMode_ok split: option.splits)

lemma reapply_frame:
  "state_of (reapply s) = s\<lparr>decalMaterial := decalMaterial (state_of (reapply s))\<rparr>"
  using applyMaterialMode_frame by (auto simp: reapply_def split: option.splits)

lemma updateBasePanel_frame:
  "state_of (updateBasePanel s) = s\<lparr>frontPanelMesh := frontPanelMesh (state_of (updateBasePanel s))\<rparr>"
  by (auto simp: updateBasePanel_def Let_def split: option.splits property.splits)

lemma lifecycle_ok_frontPanelMesh:
  "lifecycle_ok s \<Longrightarrow> lifecycle_ok (s\<lparr>frontPanelMesh := x\<rparr>)"
  by (simp add: lifecycle_ok_def live_geometries_def)

lemma updateBasePanel_ok: "lifecycle_ok s \<Longrightarrow> lifecycle_ok (state_of (updateBasePanel s))"
proof -
  assume "lifecycle_ok s"
  then have "lifecycle_ok (s\<lparr>frontPanelMesh := frontPanelMesh (state_of (updateBasePanel s))\<rparr>)"
    by (rule lifecycle_ok_frontPanelMesh)
  then show ?thesis using updateBasePanel_frame [of s] by simp
qed

lemma setMode_ok: "lifecycle_ok s \<Longrightarrow> lifecycle_ok (state_of (setMode mode s))"
  unfolding setMode_def
  by (rule reapply_ok) (simp add: lifecycle_ok_def live_geometries_def)

lemma setFinish_ok:
  assumes "lifecycle_ok s"
  shows "lifecycle_ok (state_of (setFinish finishId s))"
proof (cases "truthy (FINISH_PRESETS finishId)")
  case False
  then show ?thesis using assms by (simp add: setFinish_def)
next
  case True
  have a: "lifecycle_ok (s\<lparr>currentFinish := finishId\<rparr>)"
    using assms by (simp add: lifecycle_ok_def live_geometries_def)
  show ?thesis
  proof (cases "updateBasePanel (s\<lparr>currentFinish := finishId\<rparr>)")
    case (Returned s1)
    with updateBasePanel_ok [OF a] have "lifecycle_ok s1" by simp
    then show ?thesis using True Returned by (simp add: setFinish_def reapply_ok)
  next
    case (Raised e s1)
    with updateBasePanel_ok [OF a] have "lifecycle_ok s1" by simp
    then show ?thesis using True Raised by (simp add: setFinish_def)
  qed
qed

lemma removeDecals_ok:
  assumes "lifecycle_ok s"
  shows "lifecycle_ok (removeDecals s) \<and> decalMesh (removeDecals s) = None \<and>
         scene (removeDecals s) = [] \<and> live_geometries (removeDecals s) = []"
proof (cases "decalMesh s")
  case None
  then show ?thesis using assms by (simp add: removeDecals_def lifecycle_ok_def)
next
  case (Some d)
  let ?g = "geom_id (geometry d)"
  from assms Some have live: "filter (\<lambda>g. g \<notin> set (disposed s)) (geometries s) = [?g]"
    by (simp add: lifecycle_ok_def live_geometries_def)
  have "?g \<in> set (filter (\<lambda>g. g \<notin> set (disposed s)) (geometries s))"
    by (simp only: live) simp
  then have mem: "?g \<in> set (geometries s)" by simp
  have "list_all (\<lambda>g. g < next_id s) (geometries s)"
    using assms by (simp add: lifecycle_ok_def)
  with mem have lt: "?g < next_id s" by (auto simp: list_all_iff)
  have "filter (\<lambda>g. g \<noteq> ?g \<and> g \<notin> set (disposed s)) (geometries s) =
        filter (\<lambda>g. g \<noteq> ?g) (filter (\<lambda>g. g \<notin> set (disposed s)) (geometries s))"
    by (simp only: filter_filter) (rule filter_cong, auto)
  with live have "filter (\<lambda>g. g \<noteq> ?g \<and> g \<notin> set (disposed s)) (geometries s) = []"
    by simp
  then show ?thesis using assms Some lt
    by (simp add: removeDecals_def lifecycle_ok_def live_geometries_def)
qed

lemma fresh_texture_ok:
  assumes "lifecycle_ok s1"
    and "set (refs (map' dm) @ refs (alphaMap dm)) \<subseteq> {t}"
    and "tex_id t = next_id s1"
  shows "lifecycle_ok (s1\<lparr>activeTexture := Some t, textures := ts,
                         next_id := next_id s1 + 1,
                         console := w, decalMaterial := dm\<rparr>)"
proof -
  have "list_all (\<lambda>g. g < next_id s1 + 1) (geometries s1)"
    and "list_all (\<lambda>g. g < next_id s1 + 1) (disposed s1)"
    using assms(1) by (auto simp: lifecycle_ok_def list_all_iff)
  moreover have "list_all (\<lambda>u. Some t = Some u) (refs (map' dm) @ refs (alphaMap dm))"
    using assms(2) by (auto simp: list_all_iff)
  ultimately show ?thesis
    using assms(1,3) by (simp add: lifecycle_ok_def live_geometries_def)
qed

lemma install_ok:
  assumes "lifecycle_ok s4" and "decalMesh s4 = None" and "geom_id (geometry d) = next_id s4"
  shows "lifecycle_ok (s4\<lparr>decalMesh := Some d, scene := scene s4 @ [d],
                         geometries := geometries s4 @ [geom_id (geometry d)],
                         next_id := next_id s4 + 2\<rparr>)"
proof -
  have bound: "list_all (\<lambda>g. g < next_id s4) (geometries s4)"
    and bound_d: "list_all (\<lambda>g. g < next_id s4) (disposed s4)"
    and dist: "distinct (geometries s4)"
    and live: "filter (\<lambda>g. g \<notin> set (disposed s4)) (geometries s4) = []"
    and sc: "scene s4 = []"
    and tex: "list_all (\<lambda>t. tex_id t < next_id s4) (refs (activeTexture s4))"
    and chan: "list_all (\<lambda>t. activeTexture s4 = Some t)
                 (refs (map' (decalMaterial s4)) @ refs (alphaMap (decalMaterial s4)))"
    using assms(1,2) by (simp_all add: lifecycle_ok_def live_geometries_def)
  have fresh: "next_id s4 \<notin> set (geometries s4)"
    using bound by (auto simp: list_all_iff)
  have nd: "next_id s4 \<notin> set (disposed s4)"
    using bound_d by (auto simp: list_all_iff)
  have b2: "list_all (\<lambda>g. g < next_id s4 + 2) (geometries s4)"
    using bound by (auto simp: list_all_iff)
  have bd2: "list_all (\<lambda>g. g < next_id s4 + 2) (disposed s4)"
    using bound_d by (auto simp: list_all_iff)
  have t2: "list_all (\<lambda>t. tex_id t < next_id s4 + 2) (refs (activeTexture s4))"
    using tex by (auto simp: list_all_iff)
  show ?thesis
    using fresh nd b2 bd2 t2 dist live sc chan assms(3)
    by (simp add: lifecycle_ok_def live_geometries_def)
qed

lemma updateTexture_ok:
  assumes "lifecycle_ok s"
  shows "lifecycle_ok (state_of (updateTexture c s))"
proof (cases "frontPanelMesh s")
  case None
  then show ?thesis using assms by (simp add: updateTexture_def)
next
  case (Some m)
  define s1 where "s1 = removeDecals s"
  define texture where
    "texture = \<lparr> tex_id = next_id s1, tex_image = c, colorSpace = ''srgb'', flipY = True \<rparr>"
  define s3 where "s3 = s1\<lparr>activeTexture := Some texture,
      textures := textures s1 @ [tex_id texture], next_id := next_id s1 + 1,
      console := console s1 @ warnings (decalPlacement m)\<rparr>"
  define out where "out = applyMaterialMode texture s3"
  define s4 where "s4 = state_of out"
  from removeDecals_ok [OF assms] have r: "lifecycle_ok s1" "decalMesh s1 = None"
    by (simp_all add: s1_def)
  have frame: "s4 = s3\<lparr>decalMaterial := decalMaterial s4\<rparr>"
    unfolding s4_def out_def by (rule applyMaterialMode_frame)
  have ch: "set (refs (map' (decalMaterial s4)) @ refs (alphaMap (decalMaterial s4))) \<subseteq> {texture}"
    unfolding s4_def out_def using applyMaterialMode_channels [of texture s3] by simp
  have "lifecycle_ok (s1\<lparr>activeTexture := Some texture,
          textures := textures s1 @ [tex_id texture], next_id := next_id s1 + 1,
          console := console s1 @ warnings (decalPlacement m), decalMaterial := decalMaterial s4\<rparr>)"
    using fresh_texture_ok [OF r(1) ch] by (simp add: texture_def)
  then have ok4: "lifecycle_ok s4"
    using frame by (simp add: s3_def)
  have none4: "decalMesh s4 = None"
    using arg_cong [OF frame, of decalMesh] r(2) by (simp add: s3_def)
  show ?thesis
  proof (cases out)
    case (Raised e s')
    then have "state_of (updateTexture c s) = s4"
      using Some by (simp add: updateTexture_def Let_def s4_def out_def s3_def texture_def s1_def)
    then show ?thesis using ok4 by simp
  next
    case (Returned s')
    define d where "d = \<lparr> mesh_id = next_id s4 + 1, geometry = \<lparr> geom_id = next_id s4,
             geom_position = position (decalPlacement m),
             geom_orientation = orientation (decalPlacement m),
             geom_size = decalSize (decalPlacement m) \<rparr> \<rparr>"
    from Returned have "state_of (updateTexture c s) =
        s4\<lparr>decalMesh := Some d, scene := scene s4 @ [d],
           geometries := geometries s4 @ [geom_id (geometry d)], next_id := next_id s4 + 2\<rparr>"
      using Some
      by (simp add: updateTexture_def Let_def s4_def out_def s3_def texture_def s1_def d_def)
    moreover have "lifecycle_ok (s4\<lparr>decalMesh := Some d, scene := scene s4 @ [d],
           geometries := geometries s4 @ [geom_id (geometry d)], next_id := next_id s4 + 2\<rparr>)"
      using ok4 none4 by (rule install_ok) (simp add: d_def)
    ultimately show ?thesis by simp
  qed
qed

section \<open>Evaluating the sample inputs\<close>

lemmas sample_defs =
  sample_state_def sample_events_def sample_model_def missed_panel_def turned_panel_def
  panel_box_def panel_material_def quarter_turn_z_def initial_state_def sample_texture_def

lemmas op_defs =
  onLoad_def loadModel_def setFinish_def setMode_def updateTexture_def reapply_def
  updateBasePanel_def applyMaterialMode_def removeDecals_def decalPlacement_def
  intersects_def finishPreset_def baseColor_def FINISH_PRESETS_def preset_entries_def
  object_prototype_keys_def getCenter_def getSize_def isEmpty_def offsetRel_def add_v_def
  sub_v_def multiplyScalar_v_def multiplyScalar_def raw_def powder_def corten_def white_def

lemma sample_finish: "FINISH_PRESETS (currentFinish sample_state) = Own raw"
  by (simp add: sample_defs op_defs Let_def)

lemma sample_mode: "currentMode sample_state = ''engraved''"
  by (simp add: sample_defs op_defs Let_def)


section \<open>The material mode controller sets the channels\<close>



lemma sample_mesh: "frontPanelMesh sample_state =
  Some (missed_panel\<lparr>material := Some (panel_material\<lparr>roughness := 0.65, metalness := 0.8\<rparr>)\<rparr>)"
  by (simp add: sample_defs op_defs Let_def)

lemma sample_decal: "decalMesh sample_state =
  Some \<lparr> mesh_id = 2, geometry = \<lparr> geom_id = 1, geom_position = Vector3 2 3 2,
    geom_orientation = Euler 0 0 0, geom_size = Vector3 1.183 3.38 0.2 \<rparr> \<rparr>"
  by (simp add: sample_defs op_defs Let_def)

lemma sample_active: "activeTexture sample_state = Some sample_texture"
  by (simp add: sample_defs op_defs Let_def)

section \<open>Modes other than engraved\<close>

lemma reapply_not_engraved:
  assumes "currentMode s \<noteq> ''engraved''"
  shows "reapply s =
     Returned (case decalMesh s of None \<Rightarrow> s | Some d \<Rightarrow>
       (case activeTexture s of None \<Rightarrow> s | Some t \<Rightarrow>
          s\<lparr>decalMaterial := (decalMaterial s)\<lparr>needsUpdate := True, map' := Some t,
               alphaMap := None, color := white, roughness := 0.4, metalness := 0\<rparr>\<rparr>))"
  using assms by (simp add: reapply_def applyMaterialMode_def Let_def split: option.splits)

text \<open>
  C10. \<open>setMode\<close> stores whatever it is given. For every mode other than \<open>engraved\<close>,
  inside the enumeration or not, it returns and leaves the decal material exactly as
  \<open>setMode('printed')\<close> would: with a decal and a texture present that is the printed
  configuration, while the given value stays stored as the current mode.
\<close>

theorem setMode_other_is_printed:
  assumes "mode \<noteq> ''engraved''"
  shows "currentMode (state_of (setMode anyMode s)) = anyMode \<and>
         \<not> raised (setMode mode s) \<and>
         decalMaterial (state_of (setMode mode s)) = decalMaterial (state_of (setMode ''printed'' s)) \<and>
         (\<forall>d t. decalMesh s = Some d \<longrightarrow> activeTexture s = Some t \<longrightarrow>
            decalMaterial (state_of (setMode mode s)) =
              (decalMaterial s)\<lparr>needsUpdate := True, map' := Some t, alphaMap := None,
                 color := white, roughness := 0.4, metalness := 0.0\<rparr>)"
proof -
  have stored: "currentMode (state_of (setMode anyMode s)) = anyMode"
    using arg_cong [OF reapply_frame [of "s\<lparr>currentMode := anyMode\<rparr>"], of currentMode]
    by (simp add: setMode_def)
  have m: "currentMode (s\<lparr>currentMode := mode\<rparr>) \<noteq> ''engraved''" using assms by simp
  have p: "currentMode (s\<lparr>currentMode := ''printed''\<rparr>) \<noteq> ''engraved''" by simp
  show ?thesis
    using stored
    by (simp add: setMode_def reapply_not_engraved [OF m] reapply_not_engraved [OF p]
          split: option.splits)
qed

theorem setMode_other_is_printed_witness:
  "''embossed'' \<noteq> ''engraved'' \<and>
   currentMode (state_of (setMode ''embossed'' sample_state)) = ''embossed'' \<and>
   map' (decalMaterial (state_of (setMode ''embossed'' sample_state))) = Some sample_texture \<and>
   alphaMap (decalMaterial (state_of (setMode ''embossed'' sample_state))) = None \<and>
   color (decalMaterial (state_of (setMode ''embossed'' sample_state))) = white \<and>
   roughness (decalMaterial (state_of (setMode ''embossed'' sample_state))) = 0.4"
proof -
  have h: "''embossed'' \<noteq> ''engraved''" by simp
  from setMode_other_is_printed [OF h, of "''embossed''" sample_state]
  have "currentMode (state_of (setMode ''embossed'' sample_state)) = ''embossed''"
    and "decalMaterial (state_of (setMode ''embossed'' sample_state)) =
          (decalMaterial sample_state)\<lparr>needsUpdate := True, map' := Some sample_texture,
             alphaMap := None, color := white, roughness := 0.4, metalness := 0.0\<rparr>"
    using sample_decal sample_active by auto
  then show ?thesis by simp
qed

section \<open>Darkening in engraved mode\<close>

lemma lookup_corten: "FINISH_PRESETS ''corten'' = Own corten"
  by (simp add: FINISH_PRESETS_def preset_entries_def)





section \<open>Finish identifiers outside the table\<close>

text \<open>An identifier whose lookup is \<open>undefined\<close> is ignored.\<close>

lemma setFinish_undefined:
  "FINISH_PRESETS finishId = Undefined \<Longrightarrow> setFinish finishId s = Returned s"
  by (simp add: setFinish_def)

text \<open>
  C6 at the identifier \<open>constructor\<close>, which is no key of the preset table: the guard
  of \<open>setFinish\<close> lets it pass, it is stored as the current finish, and with a front panel
  that has a material the call throws; without a front panel it returns with the stored
  finish replaced. An engraved re-application under that finish throws as well.
\<close>

theorem setFinish_inherited_key:
  "map_of preset_entries ''constructor'' = None \<and>
   setFinish ''constructor'' sample_state
     = Raised TypeError (sample_state\<lparr>currentFinish := ''constructor''\<rparr>) \<and>
   setFinish ''constructor'' initial_state
     = Returned (initial_state\<lparr>currentFinish := ''constructor''\<rparr>) \<and>
   currentFinish initial_state = ''powder'' \<and>
   raised (setMode ''engraved'' (sample_state\<lparr>currentFinish := ''constructor''\<rparr>))"
proof -
  have k: "map_of preset_entries ''constructor'' = None"
    by (simp add: preset_entries_def)
  have a: "setFinish ''constructor'' sample_state
     = Raised TypeError (sample_state\<lparr>currentFinish := ''constructor''\<rparr>)"
    by (simp add: setFinish_def updateBasePanel_def lookup_constructor sample_mesh
          missed_panel_def)
  have b: "setFinish ''constructor'' initial_state
     = Returned (initial_state\<lparr>currentFinish := ''constructor''\<rparr>)"
    by (simp add: setFinish_def updateBasePanel_def reapply_def lookup_constructor
          initial_state_def)
  have c: "raised (setMode ''engraved'' (sample_state\<lparr>currentFinish := ''constructor''\<rparr>))"
    by (simp add: setMode_def reapply_def applyMaterialMode_def finishPreset_def
          lookup_constructor sample_decal sample_active Let_def)
  show ?thesis using k a b c by (simp add: initial_state_def)
qed

section \<open>Placement\<close>

lemma applyMaterialMode_Returned:
  assumes "FINISH_PRESETS (currentFinish s) \<noteq> Inherited"
  shows "applyMaterialMode t s = Returned (state_of (applyMaterialMode t s))"
  using applyMaterialMode_returns [OF assms, of t]
  by (cases "applyMaterialMode t s") simp_all

text \<open>
  What \<open>updateTexture\<close> leaves when a target mesh is resolved and the current finish is
  no inherited member: the decal built at the computed placement.
\<close>

lemma updateTexture_installs:
  assumes "frontPanelMesh s = Some m" and "FINISH_PRESETS (currentFinish s) \<noteq> Inherited"
  shows "\<not> raised (updateTexture c s)"
    and "decalMesh (state_of (updateTexture c s)) =
           Some \<lparr> mesh_id = next_id (removeDecals s) + 2,
                  geometry = \<lparr> geom_id = next_id (removeDecals s) + 1,
                    geom_position = position (decalPlacement m),
                    geom_orientation = orientation (decalPlacement m),
                    geom_size = decalSize (decalPlacement m) \<rparr> \<rparr>"
    and "scene (state_of (updateTexture c s)) = scene (removeDecals s) @
           [\<lparr> mesh_id = next_id (removeDecals s) + 2,
              geometry = \<lparr> geom_id = next_id (removeDecals s) + 1,
                geom_position = position (decalPlacement m),
                geom_orientation = orientation (decalPlacement m),
                geom_size = decalSize (decalPlacement m) \<rparr> \<rparr>]"
    and "activeTexture (state_of (updateTexture c s)) =
           Some \<lparr> tex_id = next_id (removeDecals s), tex_image = c,
                  colorSpace = ''srgb'', flipY = True \<rparr>"
    and "console (state_of (updateTexture c s)) =
           console (removeDecals s) @ warnings (decalPlacement m)"
    and "disposed (state_of (updateTexture c s)) = disposed (removeDecals s)"
proof -
  define texture where
    "texture = \<lparr> tex_id = next_id (removeDecals s), tex_image = c,
                  colorSpace = ''srgb'', flipY = True \<rparr>"
  define s3 where
    "s3 = (removeDecals s)\<lparr>activeTexture := Some texture,
            textures := textures (removeDecals s) @ [tex_id texture],
            next_id := next_id (removeDecals s) + 1,
            console := console (removeDecals s) @ warnings (decalPlacement m)\<rparr>"
  define s4 where "s4 = state_of (applyMaterialMode texture s3)"
  have fin: "FINISH_PRESETS (currentFinish s3) \<noteq> Inherited"
    using assms(2) by (simp add: s3_def removeDecals_def split: option.splits)
  have ret: "applyMaterialMode texture s3 = Returned s4"
    unfolding s4_def by (rule applyMaterialMode_Returned [OF fin])
  have frame: "s4 = s3\<lparr>decalMaterial := decalMaterial s4\<rparr>"
    unfolding s4_def by (rule applyMaterialMode_frame)
  have f: "next_id s4 = next_id (removeDecals s) + 1" "scene s4 = scene (removeDecals s)"
    "activeTexture s4 = Some texture"
    "console s4 = console (removeDecals s) @ warnings (decalPlacement m)"
    "disposed s4 = disposed (removeDecals s)"
    using arg_cong [OF frame, of next_id] arg_cong [OF frame, of scene]
      arg_cong [OF frame, of activeTexture] arg_cong [OF frame, of console]
      arg_cong [OF frame, of disposed]
    by (simp_all add: s3_def)
  have upd: "updateTexture c s =
      Returned (s4\<lparr>decalMesh := Some \<lparr> mesh_id = next_id s4 + 1,
                 geometry = \<lparr> geom_id = next_id s4,
                   geom_position = position (decalPlacement m),
                   geom_orientation = orientation (decalPlacement m),
                   geom_size = decalSize (decalPlacement m) \<rparr> \<rparr>,
               scene := scene s4 @ [\<lparr> mesh_id = next_id s4 + 1,
                 geometry = \<lparr> geom_id = next_id s4,
                   geom_position = position (decalPlacement m),
                   geom_orientation = orientation (decalPlacement m),
                   geom_size = decalSize (decalPlacement m) \<rparr> \<rparr>],
               geometries := geometries s4 @ [next_id s4],
               next_id := next_id s4 + 2\<rparr>)"
    using assms(1) ret
    by (simp add: updateTexture_def Let_def s3_def texture_def)
  show "\<not> raised (updateTexture c s)" by (simp add: upd)
  show "decalMesh (state_of (updateTexture c s)) =
           Some \<lparr> mesh_id = next_id (removeDecals s) + 2,
                  geometry = \<lparr> geom_id = next_id (removeDecals s) + 1,
                    geom_position = position (decalPlacement m),
                    geom_orientation = orientation (decalPlacement m),
                    geom_size = decalSize (decalPlacement m) \<rparr> \<rparr>"
    by (simp add: upd f)
  show "scene (state_of (updateTexture c s)) = scene (removeDecals s) @
           [\<lparr> mesh_id = next_id (removeDecals s) + 2,
              geometry = \<lparr> geom_id = next_id (removeDecals s) + 1,
                geom_position = position (decalPlacement m),
                geom_orientation = orientation (decalPlacement m),
                geom_size = decalSize (decalPlacement m) \<rparr> \<rparr>]"
    by (simp add: upd f)
  show "activeTexture (state_of (updateTexture c s)) =
           Some \<lparr> tex_id = next_id (removeDecals s), tex_image = c,
                  colorSpace = ''srgb'', flipY = True \<rparr>"
    by (simp add: upd f texture_def)
  show "console (state_of (updateTexture c s)) =
           console (removeDecals s) @ warnings (decalPlacement m)"
    by (simp add: upd f)
  show "disposed (state_of (updateTexture c s)) = disposed (removeDecals s)"
    by (simp add: upd f)
qed
lemma removeDecals_keeps:
  "next_id (removeDecals s) = next_id s" "console (removeDecals s) = console s"
  "frontPanelMesh (removeDecals s) = frontPanelMesh s"
  "currentFinish (removeDecals s) = currentFinish s"
  "currentMode (removeDecals s) = currentMode s"
  "activeTexture (removeDecals s) = activeTexture s"
  "decalMaterial (removeDecals s) = decalMaterial s"
  by (simp_all add: removeDecals_def split: option.splits)

lemma removeDecals_disposes:
  "decalMesh s = Some d \<Longrightarrow> disposed (removeDecals s) = disposed s @ [geom_id (geometry d)]"
  by (simp add: removeDecals_def)

lemma miss_intersects: "intersects missed_panel = []"
  by (simp add: intersects_def missed_panel_def)


lemma loaded_mesh: "frontPanelMesh (onLoad sample_model initial_state) = Some missed_panel"
  by (simp add: onLoad_def sample_model_def initial_state_def Let_def)

lemma loaded_finish: "FINISH_PRESETS (currentFinish (onLoad sample_model initial_state)) \<noteq> Inherited"
  by (simp add: onLoad_def sample_model_def initial_state_def Let_def lookup_powder)

text \<open>
  C3, as the claim states it, fails on the position: for a panel with the box from
  (0, 0, 0) to (2, 4, 2) that the ray misses, the offset center is (2, 3, 1) and the
  fallback position is (2, 3, 2).
\<close>

theorem fallback_position_counterexample:
  "intersects missed_panel = [] \<and>
   add_v (getCenter (setFromObject missed_panel)) (offsetRel (getSize (setFromObject missed_panel)))
     = Vector3 2 3 1 \<and>
   position (decalPlacement missed_panel) = Vector3 2 3 2 \<and>
   position (decalPlacement missed_panel) \<noteq>
     add_v (getCenter (setFromObject missed_panel)) (offsetRel (getSize (setFromObject missed_panel)))"
  by (simp add: decalPlacement_def miss_intersects Let_def)
     (simp add: missed_panel_def panel_box_def getCenter_def getSize_def isEmpty_def
        offsetRel_def add_v_def sub_v_def multiplyScalar_v_def)

text \<open>
  C3, amended. When the ray hits nothing, the placement is the offset center (the center
  of the bounding box moved by 50% of the width and 25% of the height) pushed forward
  along z by half the depth of the box, with the unrotated orientation \<open>Euler 0 0 0\<close>,
  whose projection axis is the fixed z axis, and one warning. The result depends on the
  bounding box only, so equal boxes give equal frames. \<open>updateTexture\<close> does not throw on
  that path: it logs the warning and builds the decal at that frame.
\<close>

theorem fallback_placement:
  assumes "intersects m = []"
  shows "(let box = setFromObject m; pl = decalPlacement m in
            position pl = add_v (add_v (getCenter box) (offsetRel (getSize box)))
                            (Vector3 0 0 (vec_z (getSize box) / 2)) \<and>
            orientation pl = Euler 0 0 0 \<and>
            warnings pl = [''Decal raycast failed, falling back to offset placement'']) \<and>
         (\<forall>m'. intersects m' = [] \<longrightarrow> setFromObject m' = setFromObject m \<longrightarrow>
            decalPlacement m' = decalPlacement m) \<and>
         (frontPanelMesh s = Some m \<longrightarrow> FINISH_PRESETS (currentFinish s) \<noteq> Inherited \<longrightarrow>
            \<not> raised (updateTexture c s) \<and>
            console (state_of (updateTexture c s)) =
              console s @ [''Decal raycast failed, falling back to offset placement''] \<and>
            map_option (\<lambda>d. (geom_position (geometry d), geom_orientation (geometry d)))
              (decalMesh (state_of (updateTexture c s)))
              = Some (position (decalPlacement m), Euler 0 0 0))"
proof -
  have pl: "decalPlacement m =
      \<lparr> position = add_v (add_v (getCenter (setFromObject m)) (offsetRel (getSize (setFromObject m))))
                     (Vector3 0 0 (vec_z (getSize (setFromObject m)) / 2)),
        orientation = Euler 0 0 0,
        decalSize = Vector3 (vec_x (getSize (setFromObject m)) * 0.5915)
                      (vec_y (getSize (setFromObject m)) * 0.845) 0.2,
        warnings = [''Decal raycast failed, falling back to offset placement''] \<rparr>"
    if "intersects m = []" for m
    using that by (simp add: decalPlacement_def Let_def add_v_def offsetRel_def)
  have det: "decalPlacement m' = decalPlacement m"
    if "intersects m' = []" "setFromObject m' = setFromObject m" for m'
    using that assms by (simp add: pl)
  have upd: "\<not> raised (updateTexture c s) \<and>
            console (state_of (updateTexture c s)) =
              console s @ [''Decal raycast failed, falling back to offset placement''] \<and>
            map_option (\<lambda>d. (geom_position (geometry d), geom_orientation (geometry d)))
              (decalMesh (state_of (updateTexture c s)))
              = Some (position (decalPlacement m), Euler 0 0 0)"
    if "frontPanelMesh s = Some m" "FINISH_PRESETS (currentFinish s) \<noteq> Inherited"
    using updateTexture_installs [OF that, of c] pl [OF assms]
    by (simp add: removeDecals_keeps)
  show ?thesis
    using pl [OF assms] det upd by (simp add: Let_def)
qed

theorem fallback_placement_witness:
  "intersects missed_panel = [] \<and>
   frontPanelMesh (onLoad sample_model initial_state) = Some missed_panel \<and>
   FINISH_PRESETS (currentFinish (onLoad sample_model initial_state)) \<noteq> Inherited \<and>
   position (decalPlacement missed_panel) = Vector3 2 3 2 \<and>
   orientation (decalPlacement missed_panel) = Euler 0 0 0 \<and>
   \<not> raised (updateTexture (Some 7) (onLoad sample_model initial_state)) \<and>
   console (state_of (updateTexture (Some 7) (onLoad sample_model initial_state)))
     = [''Decal raycast failed, falling back to offset placement'']"
proof -
  have c0: "console (onLoad sample_model initial_state) = []"
    by (simp add: onLoad_def sample_model_def initial_state_def Let_def)
  have box: "add_v (add_v (getCenter (setFromObject missed_panel))
                 (offsetRel (getSize (setFromObject missed_panel))))
               (Vector3 0 0 (vec_z (getSize (setFromObject missed_panel)) / 2)) = Vector3 2 3 2"
    by (simp add: missed_panel_def panel_box_def getCenter_def getSize_def isEmpty_def
        offsetRel_def add_v_def sub_v_def multiplyScalar_v_def)
  note inst = fallback_placement [OF miss_intersects, of "onLoad sample_model initial_state" "Some 7"]
  from inst have a: "position (decalPlacement missed_panel) = Vector3 2 3 2 \<and>
      orientation (decalPlacement missed_panel) = Euler 0 0 0"
    unfolding Let_def box by (elim conjE) (intro conjI)
  from inst loaded_mesh loaded_finish
  have b: "\<not> raised (updateTexture (Some 7) (onLoad sample_model initial_state)) \<and>
      console (state_of (updateTexture (Some 7) (onLoad sample_model initial_state))) =
        console (onLoad sample_model initial_state) @
          [''Decal raycast failed, falling back to offset placement'']"
    by blast
  show ?thesis
    using a b miss_intersects loaded_mesh loaded_finish by (simp add: c0)
qed



lemma sample_ok_finish: "FINISH_PRESETS (currentFinish sample_state) \<noteq> Inherited"
  by (simp add: sample_finish)

lemma sample_next_id: "next_id sample_state = 3"
  by (simp add: sample_defs op_defs Let_def)

section \<open>Invariants of every run\<close>

lemma needs_mesh_intro:
  "frontPanelMesh s \<noteq> None \<or> decalMesh s = None \<Longrightarrow> decal_needs_mesh s"
  by (auto simp: decal_needs_mesh_def split: option.splits)

lemma needs_mesh_elim:
  "decal_needs_mesh s \<Longrightarrow> frontPanelMesh s = None \<Longrightarrow> decalMesh s = None"
  by (simp add: decal_needs_mesh_def)

lemma updateBasePanel_keeps_mesh:
  "(frontPanelMesh (state_of (updateBasePanel s)) = None) = (frontPanelMesh s = None)"
  by (auto simp: updateBasePanel_def Let_def split: option.splits property.splits)

lemma updateBasePanel_decal:
  "decalMesh (state_of (updateBasePanel s)) = decalMesh s"
  using arg_cong [OF updateBasePanel_frame [of s], of decalMesh] by simp

lemma reapply_keeps:
  "frontPanelMesh (state_of (reapply s)) = frontPanelMesh s"
  "decalMesh (state_of (reapply s)) = decalMesh s"
  using arg_cong [OF reapply_frame [of s], of frontPanelMesh]
    arg_cong [OF reapply_frame [of s], of decalMesh]
  by simp_all

lemma setMode_needs_mesh:
  "decal_needs_mesh s \<Longrightarrow> decal_needs_mesh (state_of (setMode mode s))"
  by (simp add: decal_needs_mesh_def setMode_def reapply_keeps split: option.splits)

lemma setFinish_needs_mesh:
  assumes "decal_needs_mesh s"
  shows "decal_needs_mesh (state_of (setFinish finishId s))"
proof (cases "truthy (FINISH_PRESETS finishId)")
  case False
  then show ?thesis using assms by (simp add: setFinish_def)
next
  case True
  let ?u = "updateBasePanel (s\<lparr>currentFinish := finishId\<rparr>)"
  have u: "decal_needs_mesh (state_of ?u)"
  proof (rule needs_mesh_intro)
    show "frontPanelMesh (state_of ?u) \<noteq> None \<or> decalMesh (state_of ?u) = None"
      using assms
      by (auto simp: updateBasePanel_keeps_mesh updateBasePanel_decal decal_needs_mesh_def
            split: option.splits)
  qed
  show ?thesis
  proof (cases ?u)
    case (Returned s1)
    then show ?thesis
      using True u
      by (simp add: setFinish_def decal_needs_mesh_def reapply_keeps split: option.splits)
  next
    case (Raised e s1)
    then show ?thesis using True u by (simp add: setFinish_def)
  qed
qed

lemma updateTexture_keeps_mesh:
  "frontPanelMesh (state_of (updateTexture c s)) = frontPanelMesh s"
proof (cases "frontPanelMesh s")
  case None
  then show ?thesis by (simp add: updateTexture_def)
next
  case (Some m)
  define texture where
    "texture = \<lparr> tex_id = next_id (removeDecals s), tex_image = c,
                  colorSpace = ''srgb'', flipY = True \<rparr>"
  define s3 where
    "s3 = (removeDecals s)\<lparr>activeTexture := Some texture,
            textures := textures (removeDecals s) @ [tex_id texture],
            next_id := next_id (removeDecals s) + 1,
            console := console (removeDecals s) @ warnings (decalPlacement m)\<rparr>"
  have f: "frontPanelMesh (state_of (applyMaterialMode texture s3)) = frontPanelMesh s"
    using arg_cong [OF applyMaterialMode_frame [of texture s3], of frontPanelMesh]
    by (simp add: s3_def removeDecals_keeps)
  show ?thesis
    using Some f
    by (cases "applyMaterialMode texture s3")
       (simp_all add: updateTexture_def Let_def s3_def texture_def)
qed

lemma updateTexture_needs_mesh:
  assumes "decal_needs_mesh s"
  shows "decal_needs_mesh (state_of (updateTexture c s))"
proof (cases "frontPanelMesh s")
  case None
  then show ?thesis using assms by (simp add: updateTexture_def)
next
  case (Some m)
  then show ?thesis
    by (intro needs_mesh_intro) (simp add: updateTexture_keeps_mesh)
qed

lemma removeDecals_none: "decalMesh (removeDecals s) = None"
  by (simp add: removeDecals_def split: option.splits)

lemma loadModel_needs_mesh: "decal_needs_mesh s \<Longrightarrow> decal_needs_mesh (loadModel s)"
  by (auto simp: loadModel_def removeDecals_none intro: needs_mesh_intro split: option.splits)

lemma onLoad_decal: "decalMesh (onLoad model s) = decalMesh s"
  by (simp add: onLoad_def Let_def split: option.splits list.splits prod.splits)

lemma onLoad_keeps_mesh: "frontPanelMesh s = Some m \<Longrightarrow> frontPanelMesh (onLoad model s) = Some m"
  by (simp add: onLoad_def Let_def)

lemma onLoad_needs_mesh:
  assumes "decal_needs_mesh s"
  shows "decal_needs_mesh (onLoad model s)"
proof (cases "frontPanelMesh s")
  case None
  then show ?thesis
    using assms by (intro needs_mesh_intro) (simp add: onLoad_decal decal_needs_mesh_def)
next
  case (Some m)
  then show ?thesis
    by (intro needs_mesh_intro) (simp add: onLoad_keeps_mesh)
qed

lemma handle_needs_mesh:
  "decal_needs_mesh s \<Longrightarrow> decal_needs_mesh (state_of (handle ev s))"
  by (cases ev)
     (simp_all add: loadModel_needs_mesh onLoad_needs_mesh updateTexture_needs_mesh
        setFinish_needs_mesh setMode_needs_mesh)

lemma run_needs_mesh: "decal_needs_mesh s \<Longrightarrow> decal_needs_mesh (run evs s)"
  by (induction evs arbitrary: s) (simp_all add: handle_needs_mesh)

lemma initial_needs_mesh: "decal_needs_mesh initial_state"
  by (simp add: decal_needs_mesh_def initial_state_def)

section \<open>While no target mesh is resolved\<close>

text \<open>
  C8, as the claim states it, fails: in the state after module load, where no target
  mesh is resolved, \<open>setMode\<close> and \<open>setFinish\<close> replace the stored mode and finish.
\<close>

theorem no_mesh_counterexample:
  "frontPanelMesh initial_state = None \<and>
   currentMode initial_state = ''printed'' \<and>
   currentMode (state_of (setMode ''engraved'' initial_state)) = ''engraved'' \<and>
   currentFinish initial_state = ''powder'' \<and>
   currentFinish (state_of (setFinish ''raw'' initial_state)) = ''raw''"
  by (simp add: initial_state_def setMode_def setFinish_def reapply_def updateBasePanel_def
        lookup_raw)

text \<open>
  C8, amended. In every state the module can reach in which no target mesh is resolved,
  none of the three operations throws; \<open>updateTexture\<close> changes nothing; \<open>setMode\<close> stores
  its argument as the current mode and changes nothing else; \<open>setFinish\<close> stores its
  argument as the current finish when the lookup in the preset table is truthy, and
  changes nothing else.
\<close>

theorem no_mesh_operations:
  assumes "frontPanelMesh (run evs initial_state) = None"
  shows "(let s = run evs initial_state in
            updateTexture c s = Returned s \<and>
            setMode mode s = Returned (s\<lparr>currentMode := mode\<rparr>) \<and>
            setFinish finishId s =
              Returned (if truthy (FINISH_PRESETS finishId)
                        then s\<lparr>currentFinish := finishId\<rparr> else s))"
proof -
  define s where "s = run evs initial_state"
  have m: "frontPanelMesh s = None" using assms by (simp add: s_def)
  have d: "decalMesh s = None"
    using run_needs_mesh [OF initial_needs_mesh, of evs] m
    by (simp add: s_def needs_mesh_elim)
  have "updateTexture c s = Returned s" using m by (simp add: updateTexture_def)
  moreover have "setMode mode s = Returned (s\<lparr>currentMode := mode\<rparr>)"
    using d by (simp add: setMode_def reapply_def)
  moreover have "setFinish finishId s =
      Returned (if truthy (FINISH_PRESETS finishId) then s\<lparr>currentFinish := finishId\<rparr> else s)"
    using m d by (simp add: setFinish_def updateBasePanel_def reapply_def)
  ultimately show ?thesis by (simp add: s_def Let_def)
qed

text \<open>A model was loaded and decorated, and is then torn down by the next \<open>loadModel\<close>.\<close>

theorem no_mesh_operations_witness:
  "frontPanelMesh (run (sample_events @ [LoadModel]) initial_state) = None \<and>
   updateTexture (Some 7) (run (sample_events @ [LoadModel]) initial_state)
     = Returned (run (sample_events @ [LoadModel]) initial_state) \<and>
   setMode ''printed'' (run (sample_events @ [LoadModel]) initial_state)
     = Returned ((run (sample_events @ [LoadModel]) initial_state)\<lparr>currentMode := ''printed''\<rparr>) \<and>
   setFinish ''gold'' (run (sample_events @ [LoadModel]) initial_state)
     = Returned (run (sample_events @ [LoadModel]) initial_state)"
proof -
  have h: "frontPanelMesh (run (sample_events @ [LoadModel]) initial_state) = None"
    by (simp add: sample_defs op_defs Let_def)
  show ?thesis
    using h no_mesh_operations [OF h, of "Some 7" "''printed''" "''gold''"]
    by (simp add: Let_def lookup_unknown)
qed

section \<open>The decal lifecycle\<close>

lemma lifecycle_ok_other_fields:
  "lifecycle_ok (s\<lparr>currentModel := a\<rparr>) = lifecycle_ok s"
  "lifecycle_ok (s\<lparr>frontPanelMesh := b\<rparr>) = lifecycle_ok s"
  by (simp_all add: lifecycle_ok_def live_geometries_def)

lemma loadModel_ok: "lifecycle_ok s \<Longrightarrow> lifecycle_ok (loadModel s)"
  by (simp add: loadModel_def removeDecals_ok lifecycle_ok_other_fields split: option.splits)

lemma onLoad_ok: "lifecycle_ok s \<Longrightarrow> lifecycle_ok (onLoad model s)"
  by (simp add: onLoad_def Let_def lifecycle_ok_other_fields
        split: option.splits list.splits prod.splits)

lemma handle_ok: "lifecycle_ok s \<Longrightarrow> lifecycle_ok (state_of (handle ev s))"
  by (cases ev) (simp_all add: loadModel_ok onLoad_ok updateTexture_ok setFinish_ok setMode_ok)

lemma run_ok: "lifecycle_ok s \<Longrightarrow> lifecycle_ok (run evs s)"
  by (induction evs arbitrary: s) (simp_all add: handle_ok)

lemma initial_ok: "lifecycle_ok initial_state"
  by (simp add: lifecycle_ok_def live_geometries_def initial_state_def)


lemma removeDecals_lists:
  "textures (removeDecals s) = textures s" "geometries (removeDecals s) = geometries s"
  by (simp_all add: removeDecals_def split: option.splits)

text \<open>What an update on a resolved mesh leaves, whether or not it throws.\<close>

lemma updateTexture_result:
  assumes "frontPanelMesh s = Some m"
  shows "\<forall>t \<in> set (referenced_textures (state_of (updateTexture c s))). tex_id t = next_id s"
    and "disposed (state_of (updateTexture c s)) = disposed (removeDecals s)"
    and "\<forall>d \<in> set (scene (state_of (updateTexture c s))).
           d \<in> set (scene (removeDecals s)) \<or> geom_id (geometry d) = next_id s + 1"
    and "textures (state_of (updateTexture c s)) = textures s @ [next_id s]"
    and "activeTexture (state_of (updateTexture c s)) =
           Some \<lparr> tex_id = next_id s, tex_image = c, colorSpace = ''srgb'', flipY = True \<rparr>"
    and "geometries (state_of (updateTexture c s)) = geometries s \<or>
         geometries (state_of (updateTexture c s)) = geometries s @ [next_id s + 1]"
    and "next_id s < next_id (state_of (updateTexture c s))"
proof -
  define texture where
    "texture = \<lparr> tex_id = next_id (removeDecals s), tex_image = c,
                  colorSpace = ''srgb'', flipY = True \<rparr>"
  define s3 where
    "s3 = (removeDecals s)\<lparr>activeTexture := Some texture,
            textures := textures (removeDecals s) @ [tex_id texture],
            next_id := next_id (removeDecals s) + 1,
            console := console (removeDecals s) @ warnings (decalPlacement m)\<rparr>"
  define out where "out = applyMaterialMode texture s3"
  define s4 where "s4 = state_of out"
  have frame: "s4 = s3\<lparr>decalMaterial := decalMaterial s4\<rparr>"
    unfolding s4_def out_def by (rule applyMaterialMode_frame)
  have ch: "set (refs (map' (decalMaterial s4)) @ refs (alphaMap (decalMaterial s4))) = {texture}"
    unfolding s4_def out_def by (rule applyMaterialMode_channels)
  have tid: "tex_id texture = next_id s" by (simp add: texture_def removeDecals_keeps)
  have f: "next_id s4 = next_id s + 1" "scene s4 = scene (removeDecals s)"
    "activeTexture s4 = Some texture" "disposed s4 = disposed (removeDecals s)"
    "textures s4 = textures s @ [next_id s]" "geometries s4 = geometries s"
    using arg_cong [OF frame, of next_id] arg_cong [OF frame, of scene]
      arg_cong [OF frame, of activeTexture] arg_cong [OF frame, of disposed]
      arg_cong [OF frame, of textures] arg_cong [OF frame, of geometries]
    by (simp_all add: s3_def removeDecals_keeps removeDecals_lists tid)
  have tex: "texture = \<lparr> tex_id = next_id s, tex_image = c, colorSpace = ''srgb'', flipY = True \<rparr>"
    by (simp add: texture_def removeDecals_keeps)
  have r4: "\<forall>t \<in> set (referenced_textures s4). tex_id t = next_id s"
    using ch f(3) tid by (auto simp: referenced_textures_def)
  consider (thrown) "state_of (updateTexture c s) = s4"
    | (built) d where "state_of (updateTexture c s) =
        s4\<lparr>decalMesh := Some d, scene := scene s4 @ [d],
           geometries := geometries s4 @ [geom_id (geometry d)], next_id := next_id s4 + 2\<rparr>"
        and "geom_id (geometry d) = next_id s4"
  proof (cases out)
    case (Raised e s')
    then have "state_of (updateTexture c s) = s4"
      using assms by (simp add: updateTexture_def Let_def s4_def out_def s3_def texture_def)
    then show ?thesis by (rule thrown)
  next
    case (Returned s')
    define d where "d = \<lparr> mesh_id = next_id s4 + 1, geometry = \<lparr> geom_id = next_id s4,
             geom_position = position (decalPlacement m),
             geom_orientation = orientation (decalPlacement m),
             geom_size = decalSize (decalPlacement m) \<rparr> \<rparr>"
    from Returned have "state_of (updateTexture c s) =
        s4\<lparr>decalMesh := Some d, scene := scene s4 @ [d],
           geometries := geometries s4 @ [geom_id (geometry d)], next_id := next_id s4 + 2\<rparr>"
      using assms
      by (simp add: updateTexture_def Let_def s4_def out_def s3_def texture_def d_def)
    moreover have "geom_id (geometry d) = next_id s4" by (simp add: d_def)
    ultimately show ?thesis by (rule built)
  qed
  then have all: "(\<forall>t \<in> set (referenced_textures (state_of (updateTexture c s))). tex_id t = next_id s)
    \<and> disposed (state_of (updateTexture c s)) = disposed (removeDecals s)
    \<and> (\<forall>d \<in> set (scene (state_of (updateTexture c s))).
           d \<in> set (scene (removeDecals s)) \<or> geom_id (geometry d) = next_id s + 1)
    \<and> textures (state_of (updateTexture c s)) = textures s @ [next_id s]
    \<and> activeTexture (state_of (updateTexture c s)) = Some texture
    \<and> (geometries (state_of (updateTexture c s)) = geometries s \<or>
         geometries (state_of (updateTexture c s)) = geometries s @ [next_id s + 1])
    \<and> next_id s < next_id (state_of (updateTexture c s))"
  proof cases
    case thrown
    then show ?thesis using r4 f by simp
  next
    case (built d)
    have "referenced_textures (state_of (updateTexture c s)) = referenced_textures s4"
      by (simp add: built(1) referenced_textures_def)
    then show ?thesis using r4 f built by auto
  qed
  from all show "\<forall>t \<in> set (referenced_textures (state_of (updateTexture c s))). tex_id t = next_id s"
    by blast
  from all show "disposed (state_of (updateTexture c s)) = disposed (removeDecals s)"
    by blast
  from all show "\<forall>d \<in> set (scene (state_of (updateTexture c s))).
           d \<in> set (scene (removeDecals s)) \<or> geom_id (geometry d) = next_id s + 1"
    by blast
  from all show "textures (state_of (updateTexture c s)) = textures s @ [next_id s]"
    by blast
  from all tex show "activeTexture (state_of (updateTexture c s)) =
           Some \<lparr> tex_id = next_id s, tex_image = c, colorSpace = ''srgb'', flipY = True \<rparr>"
    by simp
  from all show "geometries (state_of (updateTexture c s)) = geometries s \<or>
         geometries (state_of (updateTexture c s)) = geometries s @ [next_id s + 1]"
    by blast
  from all show "next_id s < next_id (state_of (updateTexture c s))"
    by blast
qed

text \<open>The decal that was active before an update is retired by it.\<close>

lemma old_decal_retired:
  assumes "lifecycle_ok s" and "frontPanelMesh s = Some m" and "decalMesh s = Some d"
  shows "d \<notin> set (scene (state_of (updateTexture c s)))"
    and "geom_id (geometry d) \<in> set (disposed (state_of (updateTexture c s)))"
    and "geom_id (geometry d) \<notin> set (live_geometries (state_of (updateTexture c s)))"
proof -
  note res = updateTexture_result [OF assms(2), of c]
  note rem = removeDecals_ok [OF assms(1)]
  have "list_all (\<lambda>g. g < next_id s) (geometries s)"
    and "live_geometries s = [geom_id (geometry d)]"
    using assms(1,3) by (simp_all add: lifecycle_ok_def)
  then have lt: "geom_id (geometry d) < next_id s"
    by (auto simp: live_geometries_def list_all_iff filter_eq_Cons_iff)
  show "d \<notin> set (scene (state_of (updateTexture c s)))"
    using res(3) rem lt by auto
  show dis: "geom_id (geometry d) \<in> set (disposed (state_of (updateTexture c s)))"
    using res(2) removeDecals_disposes [OF assms(3)] by simp
  show "geom_id (geometry d) \<notin> set (live_geometries (state_of (updateTexture c s)))"
    using dis by (simp add: live_geometries_def)
qed

section \<open>Textures are never disposed\<close>















section \<open>What is retired by an update and what is not\<close>




section \<open>A null source surface\<close>

text \<open>
  C4, as the claim states it, fails: after a decal was built from canvas 7,
  \<open>updateTexture(null)\<close> leaves a new decal in the scene, built around a texture whose
  image is \<open>null\<close>.
\<close>

theorem null_source_counterexample:
  "activeTexture sample_state = Some sample_texture \<and>
   tex_image sample_texture = Some 7 \<and>
   decalMesh sample_state \<noteq> None \<and>
   \<not> raised (updateTexture None sample_state) \<and>
   decalMesh (state_of (updateTexture None sample_state)) =
     Some \<lparr> mesh_id = 5, geometry = \<lparr> geom_id = 4, geom_position = Vector3 2 3 2,
       geom_orientation = Euler 0 0 0, geom_size = Vector3 1.183 3.38 0.2 \<rparr> \<rparr> \<and>
   decalMesh (state_of (updateTexture None sample_state)) \<noteq> None \<and>
   activeTexture (state_of (updateTexture None sample_state)) =
     Some \<lparr> tex_id = 3, tex_image = None, colorSpace = ''srgb'', flipY = True \<rparr>"
proof -
  have pl: "position (decalPlacement (missed_panel\<lparr>material := mat\<rparr>)) = Vector3 2 3 2"
    "orientation (decalPlacement (missed_panel\<lparr>material := mat\<rparr>)) = Euler 0 0 0"
    "decalSize (decalPlacement (missed_panel\<lparr>material := mat\<rparr>)) = Vector3 1.183 3.38 0.2"
    for mat
    by (simp_all add: decalPlacement_def intersects_def missed_panel_def panel_box_def
          getCenter_def getSize_def isEmpty_def offsetRel_def add_v_def sub_v_def
          multiplyScalar_v_def Let_def)
  note inst = updateTexture_installs [OF sample_mesh sample_ok_finish, of None]
  show ?thesis
    using inst(1) inst(2) inst(4) sample_active sample_decal
    by (simp add: removeDecals_keeps sample_next_id pl sample_texture_def)
qed

text \<open>
  C4, amended. There is no clearing path. In every state the module can reach with a
  target mesh resolved, \<open>updateTexture\<close> with a null source surface retires the prior
  decal (removes it from the scene and disposes its geometry) and makes a new texture
  whose image is null the active texture; and when the stored finish is no name
  inherited from \<open>Object.prototype\<close> (every key of the preset table qualifies) it returns
  and installs a new decal, the only one in the scene. What it does under an inherited
  name is the defect of C6 and is left out here.
\<close>

theorem null_source_replaces:
  assumes "frontPanelMesh (run evs initial_state) = Some m"
  shows "(let s = run evs initial_state;
              s' = state_of (updateTexture None s);
              d = \<lparr> mesh_id = next_id s + 2,
                    geometry = \<lparr> geom_id = next_id s + 1,
                      geom_position = position (decalPlacement m),
                      geom_orientation = orientation (decalPlacement m),
                      geom_size = decalSize (decalPlacement m) \<rparr> \<rparr> in
            activeTexture s' = Some \<lparr> tex_id = next_id s, tex_image = None,
                                      colorSpace = ''srgb'', flipY = True \<rparr> \<and>
            (\<forall>d0. decalMesh s = Some d0 \<longrightarrow>
               d0 \<notin> set (scene s') \<and> geom_id (geometry d0) \<in> set (disposed s')) \<and>
            (FINISH_PRESETS (currentFinish s) \<noteq> Inherited \<longrightarrow>
               \<not> raised (updateTexture None s) \<and> decalMesh s' = Some d \<and> scene s' = [d]))"
proof -
  define s where "s = run evs initial_state"
  have m: "frontPanelMesh s = Some m" using assms by (simp add: s_def)
  have ok: "lifecycle_ok s" unfolding s_def by (rule run_ok [OF initial_ok])
  have empty: "scene (removeDecals s) = []"
    using removeDecals_ok [OF ok] by simp
  note res = updateTexture_result [OF m, of None]
  have old: "d0 \<notin> set (scene (state_of (updateTexture None s))) \<and>
             geom_id (geometry d0) \<in> set (disposed (state_of (updateTexture None s)))"
    if "decalMesh s = Some d0" for d0
    using old_decal_retired(1,2) [OF ok m that, of None] by simp
  have inst: "\<not> raised (updateTexture None s) \<and>
      decalMesh (state_of (updateTexture None s)) =
        Some \<lparr> mesh_id = next_id s + 2,
               geometry = \<lparr> geom_id = next_id s + 1,
                 geom_position = position (decalPlacement m),
                 geom_orientation = orientation (decalPlacement m),
                 geom_size = decalSize (decalPlacement m) \<rparr> \<rparr> \<and>
      scene (state_of (updateTexture None s)) =
        [\<lparr> mesh_id = next_id s + 2,
           geometry = \<lparr> geom_id = next_id s + 1,
             geom_position = position (decalPlacement m),
             geom_orientation = orientation (decalPlacement m),
             geom_size = decalSize (decalPlacement m) \<rparr> \<rparr>]"
    if "FINISH_PRESETS (currentFinish s) \<noteq> Inherited"
    using updateTexture_installs(1,2,3) [OF m that, of None] empty
    by (simp add: removeDecals_keeps)
  show ?thesis
    using res(5) old inst
    unfolding Let_def s_def [symmetric] by blast
qed

theorem null_source_replaces_witness:
  "frontPanelMesh (run sample_events initial_state) = Some (missed_panel\<lparr>material :=
      Some (panel_material\<lparr>roughness := 0.65, metalness := 0.8\<rparr>)\<rparr>) \<and>
   decalMesh (run sample_events initial_state) =
     Some \<lparr> mesh_id = 2, geometry = \<lparr> geom_id = 1, geom_position = Vector3 2 3 2,
       geom_orientation = Euler 0 0 0, geom_size = Vector3 1.183 3.38 0.2 \<rparr> \<rparr> \<and>
   FINISH_PRESETS (currentFinish (run sample_events initial_state)) \<noteq> Inherited \<and>
   \<not> raised (updateTexture None (run sample_events initial_state)) \<and>
   length (scene (state_of (updateTexture None (run sample_events initial_state)))) = 1 \<and>
   map_option tex_image
     (activeTexture (state_of (updateTexture None (run sample_events initial_state))))
     = Some None \<and>
   1 \<in> set (disposed (state_of (updateTexture None (run sample_events initial_state))))"
proof -
  note h = sample_mesh [unfolded sample_state_def]
  note f = sample_ok_finish [unfolded sample_state_def]
  note d = sample_decal [unfolded sample_state_def]
  have "\<not> raised (updateTexture None (run sample_events initial_state)) \<and>
        length (scene (state_of (updateTexture None (run sample_events initial_state)))) = 1 \<and>
        map_option tex_image
          (activeTexture (state_of (updateTexture None (run sample_events initial_state))))
          = Some None \<and>
        geom_id (geometry \<lparr> mesh_id = 2, geometry = \<lparr> geom_id = 1, geom_position = Vector3 2 3 2,
          geom_orientation = Euler 0 0 0, geom_size = Vector3 1.183 3.38 0.2 \<rparr> \<rparr>)
          \<in> set (disposed (state_of (updateTexture None (run sample_events initial_state))))"
    using null_source_replaces [OF h] f d unfolding Let_def by auto
  then show ?thesis
    using h f d by simp
qed

section \<open>Mode and finish are independent\<close>

lemma same_inputs_refl: "same_inputs x x"
  by (simp add: same_inputs_def)

lemma same_inputs_sym: "same_inputs x y \<Longrightarrow> same_inputs y x"
  by (auto simp: same_inputs_def split: if_splits)

lemma same_inputs_trans: "same_inputs x y \<Longrightarrow> same_inputs y z \<Longrightarrow> same_inputs x z"
  by (auto simp: same_inputs_def split: if_splits)

lemma applyMaterialMode_normalScale:
  "normalScale (decalMaterial (state_of (applyMaterialMode t s))) = normalScale (decalMaterial s)"
  by (cases "finishPreset s") (simp_all add: applyMaterialMode_def Let_def)

lemma reapply_same_inputs: "same_inputs (state_of (reapply s)) s"
proof -
  have bc: "baseColor (state_of (reapply s)) = baseColor s"
    using arg_cong [OF reapply_frame [of s], of baseColor] by (simp add: baseColor_def)
  have at: "activeTexture (state_of (reapply s)) = activeTexture s"
    using arg_cong [OF reapply_frame [of s], of activeTexture] by simp
  have ns: "normalScale (decalMaterial (state_of (reapply s))) = normalScale (decalMaterial s)"
    by (simp add: reapply_def applyMaterialMode_normalScale split: option.splits)
  have idle: "decalMaterial (state_of (reapply s)) = decalMaterial s"
    if "decalMesh s = None \<or> activeTexture s = None"
    using that by (auto simp: reapply_def split: option.splits)
  show ?thesis
    using bc at ns idle by (simp add: same_inputs_def reapply_keeps)
qed

lemma same_inputs_mode: "same_inputs (s\<lparr>currentMode := m\<rparr>) s"
  by (simp add: same_inputs_def baseColor_def)

lemma same_inputs_finish: "same_inputs (s\<lparr>currentFinish := f\<rparr>) s"
  by (simp add: same_inputs_def baseColor_def)

lemma updateBasePanel_same_inputs: "same_inputs (state_of (updateBasePanel s)) s"
proof -
  have bc: "baseColor (state_of (updateBasePanel s)) = baseColor s"
    by (auto simp: updateBasePanel_def baseColor_def Let_def
          split: option.splits property.splits)
  have rest: "activeTexture (state_of (updateBasePanel s)) = activeTexture s"
    "decalMaterial (state_of (updateBasePanel s)) = decalMaterial s"
    using arg_cong [OF updateBasePanel_frame [of s], of activeTexture]
      arg_cong [OF updateBasePanel_frame [of s], of decalMaterial]
    by simp_all
  show ?thesis using bc rest by (simp add: same_inputs_def updateBasePanel_decal)
qed

lemma setMode_same_inputs: "same_inputs (state_of (setMode m s)) s"
  unfolding setMode_def
  by (rule same_inputs_trans [OF reapply_same_inputs same_inputs_mode])

lemma setFinish_same_inputs: "same_inputs (state_of (setFinish f s)) s"
proof (cases "truthy (FINISH_PRESETS f)")
  case False
  then show ?thesis by (simp add: setFinish_def same_inputs_refl)
next
  case True
  let ?u = "updateBasePanel (s\<lparr>currentFinish := f\<rparr>)"
  have u: "same_inputs (state_of ?u) s"
    by (rule same_inputs_trans [OF updateBasePanel_same_inputs same_inputs_finish])
  show ?thesis
  proof (cases ?u)
    case (Returned s1)
    with u have "same_inputs s1 s" by simp
    then have "same_inputs (state_of (reapply s1)) s"
      by (rule same_inputs_trans [OF reapply_same_inputs])
    then show ?thesis using True Returned by (simp add: setFinish_def)
  next
    case (Raised e s1)
    with u show ?thesis using True by (simp add: setFinish_def)
  qed
qed

text \<open>Stored mode and finish after each operation.\<close>

lemma setMode_stores:
  "currentMode (state_of (setMode m s)) = m"
  "currentFinish (state_of (setMode m s)) = currentFinish s"
  using arg_cong [OF reapply_frame [of "s\<lparr>currentMode := m\<rparr>"], of currentMode]
    arg_cong [OF reapply_frame [of "s\<lparr>currentMode := m\<rparr>"], of currentFinish]
  by (simp_all add: setMode_def)

lemma updateBasePanel_stores:
  "currentMode (state_of (updateBasePanel s)) = currentMode s"
  "currentFinish (state_of (updateBasePanel s)) = currentFinish s"
  using arg_cong [OF updateBasePanel_frame [of s], of currentMode]
    arg_cong [OF updateBasePanel_frame [of s], of currentFinish]
  by simp_all

lemma reapply_stores:
  "currentMode (state_of (reapply s)) = currentMode s"
  "currentFinish (state_of (reapply s)) = currentFinish s"
  using arg_cong [OF reapply_frame [of s], of currentMode]
    arg_cong [OF reapply_frame [of s], of currentFinish]
  by simp_all

lemma setFinish_stores:
  "currentMode (state_of (setFinish f s)) = currentMode s"
  "currentFinish (state_of (setFinish f s)) =
     (if truthy (FINISH_PRESETS f) then f else currentFinish s)"
  by (cases "updateBasePanel (s\<lparr>currentFinish := f\<rparr>)";
      use updateBasePanel_stores [of "s\<lparr>currentFinish := f\<rparr>"]
      in \<open>simp add: setFinish_def reapply_stores\<close>)+

text \<open>
  With the same mode and finish and the same inputs, re-applying gives the same decal
  material, whatever the material was before.
\<close>

lemma applyMaterialMode_cong:
  assumes "currentMode x = currentMode y" and "currentFinish x = currentFinish y"
    and "baseColor x = baseColor y"
    and "normalScale (decalMaterial x) = normalScale (decalMaterial y)"
    and "FINISH_PRESETS (currentFinish x) \<noteq> Inherited"
  shows "decalMaterial (state_of (applyMaterialMode t x))
         = decalMaterial (state_of (applyMaterialMode t y))"
proof -
  obtain fp where fx: "finishPreset x = Own fp"
    using finishPreset_not_inherited [OF assms(5)] by auto
  have "finishPreset y = finishPreset x"
    by (simp add: finishPreset_def assms(2))
  with fx have fy: "finishPreset y = Own fp" by simp
  have eq: "(decalMaterial x)\<lparr>needsUpdate := a, map' := b, alphaMap := c, color := d,
              roughness := e, metalness := f\<rparr>
          = (decalMaterial y)\<lparr>needsUpdate := a, map' := b, alphaMap := c, color := d,
              roughness := e, metalness := f\<rparr>" for a b c d e f
    using assms(4) by (cases "decalMaterial x"; cases "decalMaterial y") simp
  show ?thesis
    using assms(1,3) fx fy eq
    by (simp add: applyMaterialMode_def Let_def)
qed

lemma reapply_cong:
  assumes "same_inputs x y" and "currentMode x = currentMode y"
    and "currentFinish x = currentFinish y"
    and "FINISH_PRESETS (currentFinish x) \<noteq> Inherited"
  shows "decalMaterial (state_of (reapply x)) = decalMaterial (state_of (reapply y))"
proof (cases "decalMesh x = None \<or> activeTexture x = None")
  case True
  then show ?thesis
    using assms(1) by (auto simp: same_inputs_def reapply_def split: option.splits)
next
  case False
  then obtain d t where dt: "decalMesh x = Some d" "activeTexture x = Some t" by auto
  then have dt': "decalMesh y = Some d" "activeTexture y = Some t"
    using assms(1) by (simp_all add: same_inputs_def)
  have "decalMaterial (state_of (applyMaterialMode t x))
        = decalMaterial (state_of (applyMaterialMode t y))"
    using assms by (intro applyMaterialMode_cong) (simp_all add: same_inputs_def)
  then show ?thesis using dt dt' by (simp add: reapply_def)
qed

lemma setMode_cong:
  assumes "same_inputs x y" and "currentFinish x = currentFinish y"
    and "FINISH_PRESETS (currentFinish x) \<noteq> Inherited"
  shows "decalMaterial (state_of (setMode m x)) = decalMaterial (state_of (setMode m y))"
  unfolding setMode_def
proof (rule reapply_cong)
  show "same_inputs (x\<lparr>currentMode := m\<rparr>) (y\<lparr>currentMode := m\<rparr>)"
    using assms(1) by (simp add: same_inputs_def baseColor_def)
qed (use assms in simp_all)

lemma setFinish_cong:
  assumes "same_inputs x y" and "currentMode x = currentMode y"
    and "FINISH_PRESETS f = Own p"
  shows "decalMaterial (state_of (setFinish f x)) = decalMaterial (state_of (setFinish f y))"
proof -
  let ?x = "state_of (updateBasePanel (x\<lparr>currentFinish := f\<rparr>))"
  let ?y = "state_of (updateBasePanel (y\<lparr>currentFinish := f\<rparr>))"
  have ret: "updateBasePanel (s\<lparr>currentFinish := f\<rparr>)
             = Returned (state_of (updateBasePanel (s\<lparr>currentFinish := f\<rparr>)))" for s
    using assms(3)
    by (simp add: updateBasePanel_def Let_def split: option.splits)
  have sf: "state_of (setFinish f s)
            = state_of (reapply (state_of (updateBasePanel (s\<lparr>currentFinish := f\<rparr>))))" for s
    using assms(3) by (subst setFinish_def, subst ret) simp
  have "same_inputs ?x x" "same_inputs ?y y"
    by (rule same_inputs_trans [OF updateBasePanel_same_inputs same_inputs_finish])+
  then have si: "same_inputs ?x ?y"
    using assms(1) by (meson same_inputs_sym same_inputs_trans)
  have "decalMaterial (state_of (reapply ?x)) = decalMaterial (state_of (reapply ?y))"
    using si
  proof (rule reapply_cong)
    show "currentMode ?x = currentMode ?y"
      using assms(2) by (simp add: updateBasePanel_stores)
    show "currentFinish ?x = currentFinish ?y" by (simp add: updateBasePanel_stores)
    show "FINISH_PRESETS (currentFinish ?x) \<noteq> Inherited"
      using assms(3) by (simp add: updateBasePanel_stores)
  qed
  then show ?thesis by (simp only: sf)
qed

text \<open>
  C5. Changing the finish never changes the stored mode, and changing the mode never
  changes the stored finish. With a current finish and a finish \<open>F\<close> that are no inherited
  members (so: any key of the preset table, or an identifier the guard ignores), the
  round trip holds: \<open>setMode(A); setFinish(F); setMode(B); setFinish(F)\<close> leaves the decal
  material in the same state as \<open>setMode(B); setFinish(F)\<close>.
\<close>

theorem finish_mode_round_trip:
  assumes "FINISH_PRESETS (currentFinish s) \<noteq> Inherited" and "FINISH_PRESETS F \<noteq> Inherited"
  shows "currentMode (state_of (setFinish F s)) = currentMode s \<and>
         currentFinish (state_of (setMode A s)) = currentFinish s \<and>
         decalMaterial (run [SetMode A, SetFinish F, SetMode B, SetFinish F] s)
           = decalMaterial (run [SetMode B, SetFinish F] s)"
proof -
  define a1 where "a1 = state_of (setMode A s)"
  define a2 where "a2 = state_of (setFinish F a1)"
  define a3 where "a3 = state_of (setMode B a2)"
  define b1 where "b1 = state_of (setMode B s)"
  have goal: "decalMaterial (state_of (setFinish F a3)) = decalMaterial (state_of (setFinish F b1))"
  proof (cases "FINISH_PRESETS F")
    case Undefined
    then have idle: "state_of (setFinish F x) = x" for x by (simp add: setFinish_def)
    have "same_inputs a1 s" unfolding a1_def by (rule setMode_same_inputs)
    moreover have "currentFinish a1 = currentFinish s" by (simp add: a1_def setMode_stores)
    ultimately have "decalMaterial (state_of (setMode B a1)) = decalMaterial (state_of (setMode B s))"
      using assms(1) by (intro setMode_cong) simp_all
    then show ?thesis by (simp add: idle a3_def a2_def b1_def)
  next
    case (Own p)
    have "same_inputs a3 a2" "same_inputs a2 a1" "same_inputs a1 s" "same_inputs b1 s"
      unfolding a3_def a2_def a1_def b1_def
      by (rule setMode_same_inputs setFinish_same_inputs)+
    then have "same_inputs a3 b1"
      by (meson same_inputs_sym same_inputs_trans)
    moreover have "currentMode a3 = currentMode b1"
      by (simp add: a3_def b1_def setMode_stores)
    ultimately show ?thesis using Own by (rule setFinish_cong)
  next
    case Inherited
    with assms(2) show ?thesis by simp
  qed
  show ?thesis
    using goal by (simp add: setFinish_stores setMode_stores a1_def a2_def a3_def b1_def)
qed

theorem finish_mode_round_trip_witness:
  "FINISH_PRESETS (currentFinish sample_state) \<noteq> Inherited \<and>
   FINISH_PRESETS ''corten'' \<noteq> Inherited \<and>
   currentMode (state_of (setFinish ''corten'' sample_state)) = ''engraved'' \<and>
   currentFinish (state_of (setMode ''printed'' sample_state)) = ''raw'' \<and>
   decalMaterial (run [SetMode ''printed'', SetFinish ''corten'', SetMode ''engraved'',
                       SetFinish ''corten''] sample_state)
     = decalMaterial (run [SetMode ''engraved'', SetFinish ''corten''] sample_state)"
proof -
  have f: "FINISH_PRESETS ''corten'' \<noteq> Inherited" by (simp add: lookup_corten)
  have cf: "currentFinish sample_state = ''raw''"
    using sample_finish by (simp add: sample_defs op_defs Let_def)
  show ?thesis
    using finish_mode_round_trip [OF sample_ok_finish f, of "''printed''" "''engraved''"]
      sample_ok_finish f sample_mode cf
    by simp
qed

end
